theory Spec2Isabelle
  imports Complex_Main "HOL-Library.Sublist" "HOL-Library.Multiset"
begin

section \<open>JavaScript values used by the matching engine\<close>

text \<open>
  The scoring helpers of \<^verbatim>\<open>routes/users.js\<close> compute with JavaScript numbers, which
  are IEEE 754 doubles. A number is modelled as the rational value of a double, or
  \<^verbatim>\<open>NaN\<close>; every operator propagates \<^verbatim>\<open>NaN\<close> as the language does. The operators
  \<open>js_add\<close>, \<open>js_sub\<close>, \<open>js_mul\<close> and \<open>js_div\<close> give the exact result; where the
  exact result need not be a double, the model rounds it with \<open>rounded\<close>, defined below.
  The skill match and mutual benefit scores are sums of multiples of one half, and the
  sort compares two scores by the sign of their difference: these results are exact, and
  no rounding is written there.
\<close>

datatype number = Num rat | NaN

fun js_add :: "number \<Rightarrow> number \<Rightarrow> number" where
  "js_add (Num a) (Num b) = Num (a + b)"
| "js_add _ _ = NaN"

fun js_sub :: "number \<Rightarrow> number \<Rightarrow> number" where
  "js_sub (Num a) (Num b) = Num (a - b)"
| "js_sub _ _ = NaN"

fun js_mul :: "number \<Rightarrow> number \<Rightarrow> number" where
  "js_mul (Num a) (Num b) = Num (a * b)"
| "js_mul _ _ = NaN"

text \<open>
  Division by zero gives an infinity in JavaScript, which the model does not have; the
  source divides by the literals 86400000 and 100 only.
\<close>

fun js_div :: "number \<Rightarrow> number \<Rightarrow> number" where
  "js_div (Num a) (Num b) = (if b = 0 then NaN else Num (a / b))"
| "js_div _ _ = NaN"

fun Math_min :: "number \<Rightarrow> number \<Rightarrow> number" where
  "Math_min (Num a) (Num b) = Num (min a b)"
| "Math_min _ _ = NaN"

fun Math_max :: "number \<Rightarrow> number \<Rightarrow> number" where
  "Math_max (Num a) (Num b) = Num (max a b)"
| "Math_max _ _ = NaN"

text \<open>\<^verbatim>\<open>Math.round\<close> rounds to the nearest integer, a tie towards plus infinity.\<close>

fun Math_round :: "number \<Rightarrow> number" where
  "Math_round (Num a) = Num (of_int \<lfloor>a + 1 / 2\<rfloor>)"
| "Math_round NaN = NaN"

fun Math_floor :: "number \<Rightarrow> number" where
  "Math_floor (Num a) = Num (of_int \<lfloor>a\<rfloor>)"
| "Math_floor NaN = NaN"

text \<open>
  Rounding to the nearest double, ties to the even significand. A double is an integer
  multiple of \<open>2 powi k\<close>, where \<open>k\<close> is the exponent of the last bit of its 53-bit
  significand: \<open>expo x\<close> is that exponent for the binade of \<open>x\<close>, found by stepping
  down from the binade of 1 to the subnormal numbers (\<open>k = - 1074\<close>) or up to the largest
  binade (\<open>k = 971\<close>). An overflow to an infinity is not modelled: no score comes near
  the largest double.
\<close>

fun expo_down :: "nat \<Rightarrow> int \<Rightarrow> rat \<Rightarrow> int" where
  "expo_down 0 k x = k"
| "expo_down (Suc n) k x = (if 2 powi (k + 52) \<le> \<bar>x\<bar> then k else expo_down n (k - 1) x)"

fun expo_up :: "nat \<Rightarrow> int \<Rightarrow> rat \<Rightarrow> int" where
  "expo_up 0 k x = k"
| "expo_up (Suc n) k x = (if \<bar>x\<bar> < 2 powi (k + 53) then k else expo_up n (k + 1) x)"

definition expo :: "rat \<Rightarrow> int" where
  "expo x = (if \<bar>x\<bar> < 1 then expo_down 1022 (- 52) x else expo_up 1023 (- 52) x)"

definition round_even :: "rat \<Rightarrow> int" where
  "round_even y =
     (let n = \<lfloor>y\<rfloor>; f = y - of_int n
      in if f < 1 / 2 then n else if 1 / 2 < f then n + 1 else if even n then n else n + 1)"

definition fl :: "rat \<Rightarrow> rat" where
  "fl x = (if x = 0 then 0 else of_int (round_even (x / 2 powi expo x)) * 2 powi expo x)"

fun rounded :: "number \<Rightarrow> number" where
  "rounded (Num a) = Num (fl a)"
| "rounded NaN = NaN"

text \<open>
  What a property read \<^verbatim>\<open>obj[key]\<close> on an object literal can give: a number stored in
  the literal, a function or object inherited from \<^verbatim>\<open>Object.prototype\<close>, or
  \<^verbatim>\<open>undefined\<close>.
\<close>

datatype jsvalue = Undefined | Number rat | Object

definition Object_prototype :: "string list" where
  "Object_prototype =
     [''constructor'', ''hasOwnProperty'', ''isPrototypeOf'', ''propertyIsEnumerable'',
      ''toLocaleString'', ''toString'', ''valueOf'', ''__proto__'',
      ''__defineGetter__'', ''__defineSetter__'', ''__lookupGetter__'', ''__lookupSetter__'']"

definition get_property :: "(string \<times> rat) list \<Rightarrow> string \<Rightarrow> jsvalue" where
  "get_property obj key =
     (case map_of obj key of
        Some v \<Rightarrow> Number v
      | None \<Rightarrow> if key \<in> set Object_prototype then Object else Undefined)"

fun truthy :: "jsvalue \<Rightarrow> bool" where
  "truthy Undefined = False"
| "truthy (Number v) = (v \<noteq> 0)"
| "truthy Object = True"

definition or_else :: "jsvalue \<Rightarrow> jsvalue \<Rightarrow> jsvalue" where
  "or_else a b = (if truthy a then a else b)"

fun ToNumber :: "jsvalue \<Rightarrow> number" where
  "ToNumber (Number v) = Num v"
| "ToNumber Undefined = NaN"
| "ToNumber Object = NaN"

section \<open>Profiles\<close>

text \<open>The fields of the \<^verbatim>\<open>User\<close> schema that the matching engine reads.\<close>

record offeredSkill =
  offered_name :: string
  offered_level :: string

record wantedSkill =
  wanted_name :: string
  wanted_priority :: string
  wanted_description :: "string option"

record user =
  skillsOffered :: "offeredSkill list"
  skillsWanted :: "wantedSkill list"
  averageRating :: rat
  lastActive :: int
  location :: "string option"

text \<open>
  \<^verbatim>\<open>String.prototype.toLowerCase\<close>, on the ASCII letters; every other character is kept.
\<close>

definition lower_char :: "char \<Rightarrow> char" where
  "lower_char c =
     (case map_of (zip ''ABCDEFGHIJKLMNOPQRSTUVWXYZ'' ''abcdefghijklmnopqrstuvwxyz'') c of
        None \<Rightarrow> c
      | Some l \<Rightarrow> l)"

definition toLowerCase :: "string \<Rightarrow> string" where
  "toLowerCase s = map lower_char s"

section \<open>Level compatibility\<close>

definition levelScores :: "(string \<times> rat) list" where
  "levelScores = [(''beginner'', 1), (''intermediate'', 2), (''advanced'', 3), (''expert'', 4)]"

definition priorityMultipliers :: "(string \<times> rat) list" where
  "priorityMultipliers = [(''low'', 1 / 2), (''medium'', 1), (''high'', 3 / 2)]"

definition calculateLevelCompatibility :: "string \<Rightarrow> string \<Rightarrow> number" where
  "calculateLevelCompatibility wantedPriority offeredLevel =
     (let levelScore = or_else (get_property levelScores offeredLevel) (Number 1);
          priorityMultiplier = or_else (get_property priorityMultipliers wantedPriority) (Number 1)
      in js_mul (ToNumber levelScore) (ToNumber priorityMultiplier))"

section \<open>Skill match and mutual benefit\<close>

text \<open>
  Both scorers run \<^verbatim>\<open>forEach\<close> over one skill list with an accumulator and look the
  partner up with \<^verbatim>\<open>Array.prototype.find\<close>, which gives the first element that
  satisfies the test. The step functions are the loop bodies. The list
  \<^verbatim>\<open>skillMatches\<close> that the first scorer fills is never read and is left out.
\<close>

definition skillMatch_step :: "user \<Rightarrow> wantedSkill \<Rightarrow> number \<Rightarrow> number" where
  "skillMatch_step otherUser wantedSkill score =
     (case find (\<lambda>offeredSkill.
              toLowerCase (offered_name offeredSkill) = toLowerCase (wanted_name wantedSkill))
            (skillsOffered otherUser) of
        None \<Rightarrow> score
      | Some offeredMatch \<Rightarrow>
          (let matchScore = Num 0;
               matchScore = js_add matchScore (Num 5);
               matchScore =
                 (if wanted_priority wantedSkill = ''high'' then js_add matchScore (Num 3)
                  else if wanted_priority wantedSkill = ''medium'' then js_add matchScore (Num 2)
                  else js_add matchScore (Num 1));
               levelCompatibility =
                 calculateLevelCompatibility (wanted_priority wantedSkill)
                   (offered_level offeredMatch);
               matchScore = js_add matchScore levelCompatibility
           in js_add score matchScore))"

definition calculateSkillMatchScore :: "user \<Rightarrow> user \<Rightarrow> number" where
  "calculateSkillMatchScore currentUser otherUser =
     (let score = fold (skillMatch_step otherUser) (skillsWanted currentUser) (Num 0)
      in Math_min score (Num 20))"

definition mutualBenefit_step :: "user \<Rightarrow> offeredSkill \<Rightarrow> number \<times> nat \<Rightarrow> number \<times> nat" where
  "mutualBenefit_step otherUser offeredSkill acc =
     (case acc of (score, mutualMatches) \<Rightarrow>
        (case find (\<lambda>wantedSkill.
                 toLowerCase (wanted_name wantedSkill) = toLowerCase (offered_name offeredSkill))
               (skillsWanted otherUser) of
           None \<Rightarrow> (score, mutualMatches)
         | Some wantedMatch \<Rightarrow>
             (let mutualMatches = mutualMatches + 1;
                  matchScore = Num 0;
                  matchScore = js_add matchScore (Num 8);
                  matchScore =
                    (if wanted_priority wantedMatch = ''high'' then js_add matchScore (Num 4)
                     else if wanted_priority wantedMatch = ''medium'' then js_add matchScore (Num 2)
                     else js_add matchScore (Num 1));
                  levelCompatibility =
                    calculateLevelCompatibility (wanted_priority wantedMatch)
                      (offered_level offeredSkill);
                  matchScore = js_add matchScore levelCompatibility
              in (js_add score matchScore, mutualMatches))))"

definition calculateMutualBenefitScore :: "user \<Rightarrow> user \<Rightarrow> number" where
  "calculateMutualBenefitScore currentUser otherUser =
     (case fold (mutualBenefit_step otherUser) (skillsOffered currentUser) (Num 0, 0) of
        (score, mutualMatches) \<Rightarrow>
          (let score =
                 (if mutualMatches > 1
                  then js_add score (Num ((of_nat mutualMatches - 1) * 5))
                  else score)
           in Math_min score (Num 25)))"

section \<open>Location\<close>

text \<open>
  \<^verbatim>\<open>String.prototype.split\<close> with a one-character separator: the segments between the
  separators, at least one. \<^verbatim>\<open>includes\<close> is the substring test, \<^verbatim>\<open>trim\<close> removes
  white space at both ends (here the ASCII white space characters).
\<close>

fun split :: "char \<Rightarrow> string \<Rightarrow> string list" where
  "split sep [] = [[]]"
| "split sep (c # cs) =
     (if c = sep then [] # split sep cs
      else (c # hd (split sep cs)) # tl (split sep cs))"

fun includes_str :: "string \<Rightarrow> string \<Rightarrow> bool" where
  "includes_str [] t = (t = [])"
| "includes_str (c # cs) t = (prefix t (c # cs) \<or> includes_str cs t)"

definition white_space :: "char \<Rightarrow> bool" where
  "white_space c = (c \<in> set [CHR '' '', CHR 0x09, CHR 0x0A, CHR 0x0B, CHR 0x0C, CHR 0x0D])"

definition trim :: "string \<Rightarrow> string" where
  "trim s = rev (dropWhile white_space (rev (dropWhile white_space s)))"

text \<open>A location that is \<^verbatim>\<open>undefined\<close>, \<^verbatim>\<open>null\<close> or the empty string is falsy.\<close>

definition falsy_string :: "string option \<Rightarrow> bool" where
  "falsy_string s = (s = None \<or> s = Some [])"

definition calculateLocationScore :: "string option \<Rightarrow> string option \<Rightarrow> number" where
  "calculateLocationScore currentLocation otherLocation =
     (if falsy_string currentLocation \<or> falsy_string otherLocation then Num 0
      else
        (let current = toLowerCase (the currentLocation);
             other = toLowerCase (the otherLocation)
         in if current = other then Num 10
            else if includes_str current (split CHR '','' other ! 0)
                    \<or> includes_str other (split CHR '','' current ! 0) then Num 8
            else
              (let currentParts = split CHR '','' current;
                   otherParts = split CHR '','' other
               in if length currentParts > 1 \<and> length otherParts > 1
                     \<and> trim (currentParts ! 1) = trim (otherParts ! 1) then Num 5
                  else Num 0)))"

section \<open>The compatibility score\<close>

record score_breakdown =
  skillMatch :: number
  mutualBenefit :: number
  ratingBonus :: number
  activityBonus :: number
  locationBonus :: number

record compatibility =
  totalScore :: number
  breakdown :: score_breakdown

text \<open>
  \<^verbatim>\<open>Date.now()\<close> is read inside the function; the model takes it as the parameter
  \<open>now\<close>. Both times are milliseconds since the epoch. A decimal literal of the source
  denotes the nearest double: \<^verbatim>\<open>0.4\<close> is \<open>fl (4 / 10)\<close>. Every product, sum, difference
  and quotient is rounded; \<^verbatim>\<open>Math.round\<close>, \<^verbatim>\<open>Math.floor\<close>, \<^verbatim>\<open>Math.min\<close> and
  \<^verbatim>\<open>Math.max\<close> are exact.
\<close>

definition calculateCompatibilityScore :: "int \<Rightarrow> user \<Rightarrow> user \<Rightarrow> compatibility" where
  "calculateCompatibilityScore now currentUser otherUser =
     (let totalScore = Num 0;
          skillMatchScore = calculateSkillMatchScore currentUser otherUser;
          totalScore =
            rounded (js_add totalScore (rounded (js_mul skillMatchScore (Num (fl (4 / 10))))));
          mutualBenefitScore = calculateMutualBenefitScore currentUser otherUser;
          totalScore =
            rounded (js_add totalScore (rounded (js_mul mutualBenefitScore (Num (fl (3 / 10))))));
          ratingScore =
            Math_min (rounded (js_mul (Num (averageRating otherUser)) (Num 2))) (Num 10);
          totalScore =
            rounded (js_add totalScore (rounded (js_mul ratingScore (Num (fl (15 / 100))))));
          daysSinceLastActive =
            Math_floor
              (rounded (js_div
                 (rounded (js_sub (Num (of_int now)) (Num (of_int (lastActive otherUser)))))
                 (Num (1000 * 60 * 60 * 24))));
          activityScore = Math_max (Num 0) (rounded (js_sub (Num 10) daysSinceLastActive));
          totalScore =
            rounded (js_add totalScore (rounded (js_mul activityScore (Num (fl (1 / 10))))));
          locationScore = calculateLocationScore (location currentUser) (location otherUser);
          totalScore =
            rounded (js_add totalScore (rounded (js_mul locationScore (Num (fl (5 / 100))))))
      in \<lparr>totalScore =
            rounded (js_div (Math_round (rounded (js_mul totalScore (Num 100)))) (Num 100)),
          breakdown =
            \<lparr>skillMatch = skillMatchScore, mutualBenefit = mutualBenefitScore,
             ratingBonus = ratingScore, activityBonus = activityScore,
             locationBonus = locationScore\<rparr>\<rparr>)"

section \<open>Skill match explanation\<close>

text \<open>
  An entry of one of the three lists; a property the entry does not have is \<open>None\<close>.
\<close>

record matchEntry =
  skill :: string
  yourLevel :: "string option"
  theirLevel :: "string option"
  yourPriority :: "string option"
  theirPriority :: "string option"
  yourDescription :: "string option"
  theirDescription :: "string option"

record skillMatches =
  youCanTeach :: "matchEntry list"
  theyCanTeach :: "matchEntry list"
  mutualMatches :: "matchEntry list"

definition noEntry :: "string \<Rightarrow> matchEntry" where
  "noEntry n =
     \<lparr>skill = n, yourLevel = None, theirLevel = None, yourPriority = None,
      theirPriority = None, yourDescription = None, theirDescription = None\<rparr>"

definition findSkillMatches :: "user \<Rightarrow> user \<Rightarrow> skillMatches" where
  "findSkillMatches currentUser otherUser =
     (let youCanTeach =
            fold (\<lambda>offeredSkill acc.
                case find (\<lambda>wantedSkill.
                       toLowerCase (wanted_name wantedSkill) = toLowerCase (offered_name offeredSkill))
                     (skillsWanted otherUser) of
                  None \<Rightarrow> acc
                | Some wantedMatch \<Rightarrow>
                    acc @ [(noEntry (offered_name offeredSkill))
                             \<lparr>yourLevel := Some (offered_level offeredSkill),
                              theirPriority := Some (wanted_priority wantedMatch),
                              theirDescription := wanted_description wantedMatch\<rparr>])
              (skillsOffered currentUser) [];
          theyCanTeach =
            fold (\<lambda>offeredSkill acc.
                case find (\<lambda>wantedSkill.
                       toLowerCase (wanted_name wantedSkill) = toLowerCase (offered_name offeredSkill))
                     (skillsWanted currentUser) of
                  None \<Rightarrow> acc
                | Some wantedMatch \<Rightarrow>
                    acc @ [(noEntry (offered_name offeredSkill))
                             \<lparr>theirLevel := Some (offered_level offeredSkill),
                              yourPriority := Some (wanted_priority wantedMatch),
                              yourDescription := wanted_description wantedMatch\<rparr>])
              (skillsOffered otherUser) [];
          mutualMatches =
            fold (\<lambda>offeredSkill acc.
                case find (\<lambda>otherOfferedSkill.
                       toLowerCase (offered_name offeredSkill)
                         = toLowerCase (offered_name otherOfferedSkill))
                     (skillsOffered otherUser) of
                  None \<Rightarrow> acc
                | Some mutualMatch \<Rightarrow>
                    acc @ [(noEntry (offered_name offeredSkill))
                             \<lparr>yourLevel := Some (offered_level offeredSkill),
                              theirLevel := Some (offered_level mutualMatch)\<rparr>])
              (skillsOffered currentUser) []
      in \<lparr>youCanTeach = youCanTeach, theyCanTeach = theyCanTeach,
          mutualMatches = mutualMatches\<rparr>)"

section \<open>Ranking\<close>

text \<open>
  The handler of \<^verbatim>\<open>GET /api/users/matches\<close> copies every candidate, adds its score and
  breakdown, and sorts with \<^verbatim>\<open>Array.prototype.sort\<close> and the comparator
  \<^verbatim>\<open>(a, b) => b.compatibilityScore - a.compatibilityScore\<close>. The built-in sort is
  stable (ECMAScript 2019); it is modelled as an insertion sort that moves an element
  behind another one only when the comparator is positive. A comparator result
  \<^verbatim>\<open>NaN\<close> counts as zero.
\<close>

record scoredUser = user +
  compatibilityScore :: number
  scoreBreakdown :: score_breakdown

fun positive :: "number \<Rightarrow> bool" where
  "positive (Num v) = (v > 0)"
| "positive NaN = False"

fun sort_insert :: "('a \<Rightarrow> 'a \<Rightarrow> number) \<Rightarrow> 'a \<Rightarrow> 'a list \<Rightarrow> 'a list" where
  "sort_insert cmp x [] = [x]"
| "sort_insert cmp x (y # ys) =
     (if positive (cmp x y) then y # sort_insert cmp x ys else x # y # ys)"

definition Array_sort :: "('a \<Rightarrow> 'a \<Rightarrow> number) \<Rightarrow> 'a list \<Rightarrow> 'a list" where
  "Array_sort cmp xs = foldr (sort_insert cmp) xs []"

definition byScore :: "scoredUser \<Rightarrow> scoredUser \<Rightarrow> number" where
  "byScore a b = js_sub (compatibilityScore b) (compatibilityScore a)"

definition scoreUser :: "int \<Rightarrow> user \<Rightarrow> user \<Rightarrow> scoredUser" where
  "scoreUser now currentUser u =
     (let score = calculateCompatibilityScore now currentUser u
      in user.extend u (scoredUser.fields (totalScore score) (breakdown score)))"

definition rankMatches :: "int \<Rightarrow> user \<Rightarrow> user list \<Rightarrow> scoredUser list" where
  "rankMatches now currentUser potentialMatches =
     (let scoredUsers = map (scoreUser now currentUser) potentialMatches
      in Array_sort byScore scoredUsers)"

section \<open>The statements of the specification\<close>

text \<open>
  The \<^verbatim>\<open>User\<close> schema restricts an offered skill's level and a wanted skill's priority
  to an enumeration; profile updates run the validators.
\<close>

definition level_values :: "string list" where
  "level_values = [''beginner'', ''intermediate'', ''advanced'', ''expert'']"

definition priority_values :: "string list" where
  "priority_values = [''low'', ''medium'', ''high'']"

definition schema_valid :: "user \<Rightarrow> bool" where
  "schema_valid u =
     (list_all (\<lambda>s. offered_level s \<in> set level_values) (skillsOffered u)
      \<and> list_all (\<lambda>w. wanted_priority w \<in> set priority_values) (skillsWanted u))"

text \<open>
  The level-compatibility bonus as the specification words it: a level score, 1 when the
  level is not recognised, times a priority multiplier, 1 when the priority is not
  recognised.
\<close>

definition spec_levelScore :: "string \<Rightarrow> rat" where
  "spec_levelScore l =
     (if l = ''beginner'' then 1 else if l = ''intermediate'' then 2
      else if l = ''advanced'' then 3 else if l = ''expert'' then 4 else 1)"

definition spec_priorityMultiplier :: "string \<Rightarrow> rat" where
  "spec_priorityMultiplier p =
     (if p = ''low'' then 1 / 2 else if p = ''medium'' then 1
      else if p = ''high'' then 3 / 2 else 1)"

definition levelCompatibilityBonus :: "string \<Rightarrow> string \<Rightarrow> rat" where
  "levelCompatibilityBonus l p = spec_levelScore l * spec_priorityMultiplier p"

text \<open>
  The skills of a profile that carry a given name, compared case-insensitively, in the
  order of the profile's list; the first of them is the matched skill.
\<close>

definition offers :: "user \<Rightarrow> string \<Rightarrow> offeredSkill list" where
  "offers u n = filter (\<lambda>s. toLowerCase (offered_name s) = toLowerCase n) (skillsOffered u)"

definition wants :: "user \<Rightarrow> string \<Rightarrow> wantedSkill list" where
  "wants u n = filter (\<lambda>w. toLowerCase (wanted_name w) = toLowerCase n) (skillsWanted u)"

text \<open>
  Skill match: per matched wanted skill 5 points, a priority bonus (high 3, medium 2,
  low 1; the specification names no other priority) and the level-compatibility bonus;
  the sum is clamped to 20.
\<close>

definition skillPriorityBonus :: "string \<Rightarrow> rat" where
  "skillPriorityBonus p =
     (if p = ''high'' then 3 else if p = ''medium'' then 2 else if p = ''low'' then 1 else 0)"

definition skillMatchPoints :: "wantedSkill \<Rightarrow> offeredSkill \<Rightarrow> rat" where
  "skillMatchPoints w s =
     5 + skillPriorityBonus (wanted_priority w)
       + levelCompatibilityBonus (offered_level s) (wanted_priority w)"

definition spec_skillMatch :: "user \<Rightarrow> user \<Rightarrow> rat" where
  "spec_skillMatch currentUser candidate =
     min (\<Sum>w\<leftarrow>filter (\<lambda>w. offers candidate (wanted_name w) \<noteq> []) (skillsWanted currentUser).
            skillMatchPoints w (hd (offers candidate (wanted_name w))))
         20"

text \<open>
  Mutual benefit: per offered skill that the candidate wants 8 points, a priority bonus
  (high 4, medium 2, low 1) and the level-compatibility bonus; 5 more for every match
  beyond the first; the grand total is clamped to 25.
\<close>

definition mutualPriorityBonus :: "string \<Rightarrow> rat" where
  "mutualPriorityBonus p =
     (if p = ''high'' then 4 else if p = ''medium'' then 2 else if p = ''low'' then 1 else 0)"

definition mutualMatchPoints :: "offeredSkill \<Rightarrow> wantedSkill \<Rightarrow> rat" where
  "mutualMatchPoints s w =
     8 + mutualPriorityBonus (wanted_priority w)
       + levelCompatibilityBonus (offered_level s) (wanted_priority w)"

definition spec_mutualBenefit :: "user \<Rightarrow> user \<Rightarrow> rat" where
  "spec_mutualBenefit currentUser candidate =
     (let matched = filter (\<lambda>s. wants candidate (offered_name s) \<noteq> []) (skillsOffered currentUser);
          matchCount = length matched;
          points = (\<Sum>s\<leftarrow>matched. mutualMatchPoints s (hd (wants candidate (offered_name s))));
          multi = (if matchCount > 1 then (of_nat matchCount - 1) * 5 else 0)
      in min (points + multi) 25)"

text \<open>
  Rounding to two decimal places, half up on the third decimal: the value is cut after
  the second decimal, and one hundredth is added when the third decimal digit is 5 or more.
\<close>

definition round2_half_up :: "rat \<Rightarrow> rat" where
  "round2_half_up x =
     (let hundredths = \<lfloor>x * 100\<rfloor>;
          third = \<lfloor>x * 1000\<rfloor> mod 10
      in if third \<ge> 5 then of_int (hundredths + 1) / 100 else of_int hundredths / 100)"

text \<open>
  The parts of the total as the source computes them in double arithmetic: the rating
  bonus of an average rating, the whole days between two times and the activity bonus,
  the weighted sum of five sub-scores accumulated from left to right, and
  \<^verbatim>\<open>Math.round(x * 100) / 100\<close>.
\<close>

definition rating64 :: "rat \<Rightarrow> rat" where
  "rating64 avg = min (fl (avg * 2)) 10"

definition days64 :: "int \<Rightarrow> int \<Rightarrow> int" where
  "days64 now lastSeen = \<lfloor>fl (fl (of_int now - of_int lastSeen) / 86400000)\<rfloor>"

definition activity64 :: "int \<Rightarrow> int \<Rightarrow> rat" where
  "activity64 now lastSeen = max 0 (fl (10 - of_int (days64 now lastSeen)))"

definition weighted64 :: "rat \<Rightarrow> rat \<Rightarrow> rat \<Rightarrow> rat \<Rightarrow> rat \<Rightarrow> rat" where
  "weighted64 s m r a l =
     fl (fl (fl (fl (fl (0 + fl (s * fl (4 / 10))) + fl (m * fl (3 / 10)))
                 + fl (r * fl (15 / 100)))
             + fl (a * fl (1 / 10)))
         + fl (l * fl (5 / 100)))"

definition round2_64 :: "rat \<Rightarrow> rat" where
  "round2_64 x = fl (of_int \<lfloor>fl (x * 100) + 1 / 2\<rfloor> / 100)"

text \<open>The weighted sum of five sub-scores in exact arithmetic.\<close>

definition weighted :: "rat \<Rightarrow> rat \<Rightarrow> rat \<Rightarrow> rat \<Rightarrow> rat \<Rightarrow> rat" where
  "weighted s m r a l =
     s * (40 / 100) + m * (30 / 100) + r * (15 / 100) + a * (10 / 100) + l * (5 / 100)"

text \<open>
  The first comma-delimited segment of a string (the city), and the second one (the
  region) of a string that has a comma.
\<close>

definition first_segment :: "string \<Rightarrow> string" where
  "first_segment s = takeWhile (\<lambda>c. c \<noteq> CHR '','') s"

definition second_segment :: "string \<Rightarrow> string" where
  "second_segment s = first_segment (tl (dropWhile (\<lambda>c. c \<noteq> CHR '','') s))"

text \<open>
  A profile keeps its two skill lists apart when no skill name is, compared
  case-insensitively, both offered and wanted by the same user.
\<close>

definition separate_lists :: "user \<Rightarrow> bool" where
  "separate_lists u =
     list_all (\<lambda>s. list_all (\<lambda>w. toLowerCase (offered_name s) \<noteq> toLowerCase (wanted_name w))
                       (skillsWanted u))
       (skillsOffered u)"

text \<open>
  The order of a ranking: a score that is at least another one; \<^verbatim>\<open>NaN\<close> compares
  with nothing.
\<close>

fun at_least :: "number \<Rightarrow> number \<Rightarrow> bool" where
  "at_least (Num a) (Num b) = (b \<le> a)"
| "at_least _ _ = False"

section \<open>The scenarios of the specification\<close>

text \<open>
  Two profiles for the concrete scenarios: the learner wants Python with high priority
  and offers advanced JavaScript; the teacher offers expert Python, wants JavaScript with
  medium priority, is rated 5 and was last active at time 0. Both live in New York.
\<close>

definition learner :: user where
  "learner =
     \<lparr>skillsOffered = [\<lparr>offered_name = ''JavaScript'', offered_level = ''advanced''\<rparr>],
      skillsWanted = [\<lparr>wanted_name = ''Python'', wanted_priority = ''high'',
                       wanted_description = None\<rparr>],
      averageRating = 0, lastActive = 0, location = Some ''New York, NY''\<rparr>"

definition teacher :: user where
  "teacher =
     \<lparr>skillsOffered = [\<lparr>offered_name = ''Python'', offered_level = ''expert''\<rparr>],
      skillsWanted = [\<lparr>wanted_name = ''JavaScript'', wanted_priority = ''medium'',
                       wanted_description = None\<rparr>],
      averageRating = 5, lastActive = 0, location = Some ''New York, NY''\<rparr>"

text \<open>
  A second pair: the tutor offers Python; the improver offers Python as a beginner and
  wants to learn more of it.
\<close>

definition tutor :: user where
  "tutor =
     \<lparr>skillsOffered = [\<lparr>offered_name = ''Python'', offered_level = ''intermediate''\<rparr>],
      skillsWanted = [],
      averageRating = 4, lastActive = 0, location = None\<rparr>"

definition improver :: user where
  "improver =
     \<lparr>skillsOffered = [\<lparr>offered_name = ''Python'', offered_level = ''beginner''\<rparr>],
      skillsWanted = [\<lparr>wanted_name = ''python'', wanted_priority = ''high'',
                       wanted_description = None\<rparr>],
      averageRating = 3, lastActive = 0, location = None\<rparr>"

text \<open>
  A third pair, for the caps: the polyglot offers three skills, and the novice wants two of
  them, written in lower case.
\<close>

definition polyglot :: user where
  "polyglot =
     \<lparr>skillsOffered = [\<lparr>offered_name = ''Python'', offered_level = ''expert''\<rparr>,
                       \<lparr>offered_name = ''JavaScript'', offered_level = ''advanced''\<rparr>,
                       \<lparr>offered_name = ''SQL'', offered_level = ''beginner''\<rparr>],
      skillsWanted = [],
      averageRating = 5, lastActive = 0, location = Some ''Berlin''\<rparr>"

definition novice :: user where
  "novice =
     \<lparr>skillsOffered = [],
      skillsWanted = [\<lparr>wanted_name = ''python'', wanted_priority = ''high'',
                       wanted_description = None\<rparr>,
                      \<lparr>wanted_name = ''javascript'', wanted_priority = ''medium'',
                       wanted_description = None\<rparr>],
      averageRating = 0, lastActive = 0, location = Some ''Berlin''\<rparr>"

text \<open>A profile without skills or location, rated 0.75.\<close>

definition newcomer :: user where
  "newcomer =
     \<lparr>skillsOffered = [], skillsWanted = [],
      averageRating = 3 / 4, lastActive = 0, location = None\<rparr>"

section \<open>Level compatibility: recognised and inherited keys\<close>

lemma enum_not_inherited:
  "l \<in> set level_values \<Longrightarrow> l \<notin> set Object_prototype"
  "p \<in> set priority_values \<Longrightarrow> p \<notin> set Object_prototype"
  by (auto simp: level_values_def priority_values_def Object_prototype_def)

lemma get_property_levelScores:
  "l \<notin> set Object_prototype \<Longrightarrow>
   ToNumber (or_else (get_property levelScores l) (Number 1)) = Num (spec_levelScore l)"
  by (simp add: get_property_def levelScores_def or_else_def spec_levelScore_def)

lemma get_property_priorityMultipliers:
  "p \<notin> set Object_prototype \<Longrightarrow>
   ToNumber (or_else (get_property priorityMultipliers p) (Number 1)) = Num (spec_priorityMultiplier p)"
  by (simp add: get_property_def priorityMultipliers_def or_else_def spec_priorityMultiplier_def)

lemma calculateLevelCompatibility_plain:
  "p \<notin> set Object_prototype \<Longrightarrow> l \<notin> set Object_prototype \<Longrightarrow>
   calculateLevelCompatibility p l = Num (levelCompatibilityBonus l p)"
  by (simp add: calculateLevelCompatibility_def Let_def get_property_levelScores
      get_property_priorityMultipliers levelCompatibilityBonus_def)

lemma calculateLevelCompatibility_inherited_level:
  "l \<in> set Object_prototype \<Longrightarrow> calculateLevelCompatibility p l = NaN"
  by (auto simp add: calculateLevelCompatibility_def Let_def get_property_def levelScores_def or_else_def Object_prototype_def)




section \<open>Skill match\<close>

lemma find_filter: "find P xs = (case filter P xs of [] \<Rightarrow> None | x # _ \<Rightarrow> Some x)"
  by (induction xs) auto

lemma find_offers:
  "find (\<lambda>s. toLowerCase (offered_name s) = toLowerCase n) (skillsOffered u) =
   (if offers u n = [] then None else Some (hd (offers u n)))"
  by (simp add: find_filter offers_def split: list.splits)

lemma find_wants:
  "find (\<lambda>w. toLowerCase (wanted_name w) = toLowerCase n) (skillsWanted u) =
   (if wants u n = [] then None else Some (hd (wants u n)))"
  by (simp add: find_filter wants_def split: list.splits)

lemma hd_offers_level:
  assumes "schema_valid u" "offers u n \<noteq> []"
  shows "offered_level (hd (offers u n)) \<in> set level_values"
proof -
  have "hd (offers u n) \<in> set (offers u n)" using assms(2) by simp
  then have "hd (offers u n) \<in> set (skillsOffered u)" by (simp add: offers_def)
  with assms(1) show ?thesis by (simp add: schema_valid_def list_all_iff)
qed

lemma hd_wants_priority:
  assumes "schema_valid u" "wants u n \<noteq> []"
  shows "wanted_priority (hd (wants u n)) \<in> set priority_values"
proof -
  have "hd (wants u n) \<in> set (wants u n)" using assms(2) by simp
  then have "hd (wants u n) \<in> set (skillsWanted u)" by (simp add: wants_def)
  with assms(1) show ?thesis by (simp add: schema_valid_def list_all_iff)
qed

lemma skillMatch_step_valid:
  assumes "schema_valid other" "wanted_priority w \<in> set priority_values"
  shows "skillMatch_step other w (Num s) =
         Num (s + (if offers other (wanted_name w) = [] then 0
                   else skillMatchPoints w (hd (offers other (wanted_name w)))))"
proof (cases "offers other (wanted_name w) = []")
  case True
  then show ?thesis by (simp add: skillMatch_step_def find_offers)
next
  case False
  have lc: "calculateLevelCompatibility (wanted_priority w)
              (offered_level (hd (offers other (wanted_name w)))) =
            Num (levelCompatibilityBonus (offered_level (hd (offers other (wanted_name w))))
                   (wanted_priority w))"
    using assms False
    by (intro calculateLevelCompatibility_plain enum_not_inherited hd_offers_level)
  show ?thesis using False assms(2)
    by (auto simp add: skillMatch_step_def find_offers Let_def lc skillMatchPoints_def
        priority_values_def skillPriorityBonus_def)
qed

lemma fold_skillMatch_step:
  assumes "schema_valid other" "list_all (\<lambda>w. wanted_priority w \<in> set priority_values) ws"
  shows "fold (skillMatch_step other) ws (Num s) =
         Num (s + (\<Sum>w\<leftarrow>filter (\<lambda>w. offers other (wanted_name w) \<noteq> []) ws.
                     skillMatchPoints w (hd (offers other (wanted_name w)))))"
  using assms(2)
proof (induction ws arbitrary: s)
  case Nil
  then show ?case by simp
next
  case (Cons w ws)
  then show ?case by (simp add: skillMatch_step_valid [OF assms(1)] add.assoc)
qed

text \<open>
  Claim C2. For profiles that satisfy the schema, the skill match score is the sum, over
  the wanted skills of the current user that the candidate offers (names compared
  case-insensitively), of 5 points, the priority bonus and the level-compatibility bonus
  of the first offered skill with that name, clamped to 20; it is 0 when nothing matches.
\<close>

theorem calculateSkillMatchScore_spec:
  assumes "schema_valid currentUser" "schema_valid candidate"
  shows "calculateSkillMatchScore currentUser candidate = Num (spec_skillMatch currentUser candidate)"
proof -
  have ws: "list_all (\<lambda>w. wanted_priority w \<in> set priority_values) (skillsWanted currentUser)"
    using assms(1) by (simp add: schema_valid_def)
  show ?thesis
    by (simp add: calculateSkillMatchScore_def spec_skillMatch_def
        fold_skillMatch_step [OF assms(2) ws])
qed

text \<open>
  Scenario 1: Python wanted with high priority, offered at expert level, gives 14. The
  learner offers nothing the learner wants, which gives 0. The novice's two wanted skills
  match the polyglot's offers in another case and earn 14 and 10, clamped to 20.
\<close>

theorem calculateSkillMatchScore_spec_witness:
  "schema_valid learner \<and> schema_valid teacher \<and> schema_valid novice \<and> schema_valid polyglot
   \<and> calculateSkillMatchScore learner teacher = Num 14
   \<and> calculateSkillMatchScore learner learner = Num 0
   \<and> calculateSkillMatchScore novice polyglot = Num 20"
proof -
  have v: "schema_valid learner" "schema_valid teacher" "schema_valid novice"
    "schema_valid polyglot"
    by (simp_all add: schema_valid_def learner_def teacher_def novice_def polyglot_def
        level_values_def priority_values_def)
  have s: "spec_skillMatch learner teacher = 14" "spec_skillMatch learner learner = 0"
    "spec_skillMatch novice polyglot = 20"
    by (simp_all add: spec_skillMatch_def offers_def learner_def teacher_def novice_def
        polyglot_def skillMatchPoints_def skillPriorityBonus_def levelCompatibilityBonus_def
        spec_levelScore_def spec_priorityMultiplier_def toLowerCase_def lower_char_def)
  show ?thesis
    using calculateSkillMatchScore_spec [OF v(1) v(2)] calculateSkillMatchScore_spec [OF v(1) v(1)]
      calculateSkillMatchScore_spec [OF v(3) v(4)] v s
    by simp
qed

section \<open>Mutual benefit\<close>

lemma mutualBenefit_step_valid:
  assumes "schema_valid other" "offered_level s \<in> set level_values"
  shows "mutualBenefit_step other s (Num t, k) =
         (if wants other (offered_name s) = [] then (Num t, k)
          else (Num (t + mutualMatchPoints s (hd (wants other (offered_name s)))), k + 1))"
proof (cases "wants other (offered_name s) = []")
  case True
  then show ?thesis by (simp add: mutualBenefit_step_def find_wants)
next
  case False
  have p: "wanted_priority (hd (wants other (offered_name s))) \<in> set priority_values"
    using assms(1) False by (rule hd_wants_priority)
  have lc: "calculateLevelCompatibility (wanted_priority (hd (wants other (offered_name s))))
              (offered_level s) =
            Num (levelCompatibilityBonus (offered_level s)
                   (wanted_priority (hd (wants other (offered_name s)))))"
    using assms(2) p by (intro calculateLevelCompatibility_plain enum_not_inherited)
  show ?thesis using False p
    by (auto simp add: mutualBenefit_step_def find_wants Let_def lc mutualMatchPoints_def
        priority_values_def mutualPriorityBonus_def)
qed

lemma fold_mutualBenefit_step:
  assumes "schema_valid other" "list_all (\<lambda>s. offered_level s \<in> set level_values) os"
  shows "fold (mutualBenefit_step other) os (Num t, k) =
         (Num (t + (\<Sum>s\<leftarrow>filter (\<lambda>s. wants other (offered_name s) \<noteq> []) os.
                      mutualMatchPoints s (hd (wants other (offered_name s))))),
          k + length (filter (\<lambda>s. wants other (offered_name s) \<noteq> []) os))"
  using assms(2)
proof (induction os arbitrary: t k)
  case Nil
  then show ?case by simp
next
  case (Cons s os)
  then show ?case by (simp add: mutualBenefit_step_valid [OF assms(1)] add.assoc)
qed

text \<open>
  Claim C3. For profiles that satisfy the schema, the mutual benefit score is the sum, over
  the offered skills of the current user that the candidate wants (names compared
  case-insensitively), of 8 points, the priority bonus and the level-compatibility bonus,
  plus 5 for every match beyond the first, the total clamped to 25.
\<close>

theorem calculateMutualBenefitScore_spec:
  assumes "schema_valid currentUser" "schema_valid candidate"
  shows "calculateMutualBenefitScore currentUser candidate =
         Num (spec_mutualBenefit currentUser candidate)"
proof -
  have os: "list_all (\<lambda>s. offered_level s \<in> set level_values) (skillsOffered currentUser)"
    using assms(1) by (simp add: schema_valid_def)
  show ?thesis
    by (simp add: calculateMutualBenefitScore_def spec_mutualBenefit_def Let_def
        fold_mutualBenefit_step [OF assms(2) os])
qed

text \<open>
  Scenario 2: advanced JavaScript offered, wanted with medium priority, the only mutual
  match, gives 13. The polyglot's two matches with the novice earn 18 and 13, and 5 for
  the second match; the total of 36 is clamped to 25.
\<close>

theorem calculateMutualBenefitScore_spec_witness:
  "schema_valid learner \<and> schema_valid teacher \<and> schema_valid novice \<and> schema_valid polyglot
   \<and> calculateMutualBenefitScore learner teacher = Num 13
   \<and> calculateMutualBenefitScore polyglot novice = Num 25"
proof -
  have v: "schema_valid learner" "schema_valid teacher" "schema_valid novice"
    "schema_valid polyglot"
    by (simp_all add: schema_valid_def learner_def teacher_def novice_def polyglot_def
        level_values_def priority_values_def)
  have s: "spec_mutualBenefit learner teacher = 13" "spec_mutualBenefit polyglot novice = 25"
    by (simp_all add: spec_mutualBenefit_def wants_def learner_def teacher_def novice_def
        polyglot_def mutualMatchPoints_def mutualPriorityBonus_def levelCompatibilityBonus_def
        spec_levelScore_def spec_priorityMultiplier_def toLowerCase_def lower_char_def)
  show ?thesis
    using calculateMutualBenefitScore_spec [OF v(1) v(2)]
      calculateMutualBenefitScore_spec [OF v(4) v(3)] v s
    by simp
qed

section \<open>Rounding to doubles\<close>

lemma round_even_bounds: "\<lfloor>y\<rfloor> \<le> round_even y \<and> round_even y \<le> \<lceil>y\<rceil>"
proof -
  have "y - of_int \<lfloor>y\<rfloor> = 0 \<or> \<lceil>y\<rceil> = \<lfloor>y\<rfloor> + 1"
    by (metis ceiling_altdef diff_eq_eq add.commute add_0 of_int_floor_cancel)
  then show ?thesis by (auto simp: round_even_def Let_def)
qed

lemma round_even_le: "y \<le> of_int z \<Longrightarrow> round_even y \<le> z"
  using round_even_bounds [of y] by (meson ceiling_le order_trans)

lemma round_even_ge: "of_int z \<le> y \<Longrightarrow> z \<le> round_even y"
  using round_even_bounds [of y] by (meson le_floor_iff order_trans)

lemma round_even_mono:
  assumes "y1 \<le> y2"
  shows "round_even y1 \<le> round_even y2"
proof (cases "\<lfloor>y1\<rfloor> = \<lfloor>y2\<rfloor>")
  case True
  then show ?thesis using assms by (auto simp: round_even_def Let_def)
next
  case False
  then have "\<lfloor>y1\<rfloor> < \<lfloor>y2\<rfloor>" using assms floor_mono [of y1 y2] by linarith
  then have "\<lceil>y1\<rceil> \<le> \<lfloor>y2\<rfloor>" by (simp add: ceiling_le_iff floor_less_iff)
  then show ?thesis using round_even_bounds [of y1] round_even_bounds [of y2] by linarith
qed

lemma round_even_error: "\<bar>of_int (round_even y) - y\<bar> \<le> 1 / 2"
proof -
  have "0 \<le> y - of_int \<lfloor>y\<rfloor>" "y - of_int \<lfloor>y\<rfloor> < 1" by linarith+
  then show ?thesis by (auto simp: round_even_def Let_def abs_if) linarith+
qed

lemma expo_down_props:
  assumes "\<bar>x\<bar> < 2 powi (k + 53)"
  shows "k - int n \<le> expo_down n k x \<and> expo_down n k x \<le> k
       \<and> \<bar>x\<bar> < 2 powi (expo_down n k x + 53)
       \<and> (expo_down n k x = k - int n \<or> 2 powi (expo_down n k x + 52) \<le> \<bar>x\<bar>)"
  using assms
proof (induction n arbitrary: k)
  case 0
  then show ?case by simp
next
  case (Suc n)
  show ?case
  proof (cases "2 powi (k + 52) \<le> \<bar>x\<bar>")
    case True
    then show ?thesis using Suc.prems by simp
  next
    case False
    then have "\<bar>x\<bar> < 2 powi (k - 1 + 53)" by (simp add: algebra_simps)
    from Suc.IH [OF this] False show ?thesis by auto
  qed
qed

lemma expo_up_props:
  assumes "2 powi (k + 52) \<le> \<bar>x\<bar>"
  shows "k \<le> expo_up n k x \<and> expo_up n k x \<le> k + int n
       \<and> 2 powi (expo_up n k x + 52) \<le> \<bar>x\<bar>
       \<and> (expo_up n k x = k + int n \<or> \<bar>x\<bar> < 2 powi (expo_up n k x + 53))"
  using assms
proof (induction n arbitrary: k)
  case 0
  then show ?case by simp
next
  case (Suc n)
  show ?case
  proof (cases "\<bar>x\<bar> < 2 powi (k + 53)")
    case True
    then show ?thesis using Suc.prems by simp
  next
    case False
    then have "2 powi (k + 1 + 52) \<le> \<bar>x\<bar>" by (simp add: algebra_simps)
    from Suc.IH [OF this] False show ?thesis by auto
  qed
qed

lemma expo_props:
  "- 1074 \<le> expo x \<and> expo x \<le> 971
   \<and> (expo x = - 1074 \<or> 2 powi (expo x + 52) \<le> \<bar>x\<bar>)
   \<and> (expo x = 971 \<or> \<bar>x\<bar> < 2 powi (expo x + 53))"
proof (cases "\<bar>x\<bar> < 1")
  case True
  then have "\<bar>x\<bar> < 2 powi (- 52 + 53)" by simp
  from expo_down_props [OF this, of 1022] True show ?thesis by (simp add: expo_def)
next
  case False
  then have "2 powi (- 52 + 52) \<le> \<bar>x\<bar>" by simp
  from expo_up_props [OF this, of 1023] False show ?thesis by (simp add: expo_def)
qed

lemma expo_range: "- 1074 \<le> expo x \<and> expo x \<le> 971"
  using expo_props [of x] by simp

lemma expo_lower: "expo x = - 1074 \<or> 2 powi (expo x + 52) \<le> \<bar>x\<bar>"
  using expo_props [of x] by simp

lemma expo_upper: "expo x = 971 \<or> \<bar>x\<bar> < 2 powi (expo x + 53)"
  using expo_props [of x] by simp

lemma two_powi_mono: "i \<le> j \<Longrightarrow> (2::rat) powi i \<le> 2 powi j"
  by (rule power_int_increasing) simp_all

lemma expo_mono:
  assumes "\<bar>x\<bar> \<le> \<bar>y\<bar>"
  shows "expo x \<le> expo y"
proof (rule ccontr)
  assume "\<not> expo x \<le> expo y"
  then have less: "expo y < expo x" by simp
  with expo_range [of y] expo_range [of x] have "expo x \<noteq> - 1074" "expo y \<noteq> 971" by linarith+
  then have "2 powi (expo x + 52) \<le> \<bar>x\<bar>" "\<bar>y\<bar> < 2 powi (expo y + 53)"
    using expo_lower [of x] expo_upper [of y] by auto
  moreover have "(2::rat) powi (expo y + 53) \<le> 2 powi (expo x + 52)"
    using less by (intro two_powi_mono) simp
  ultimately show False using assms by linarith
qed

lemma expo_le_of_bound:
  assumes "\<bar>x\<bar> < 2 powi (j + 53)" "- 1074 \<le> j"
  shows "expo x \<le> j"
proof (rule ccontr)
  assume "\<not> expo x \<le> j"
  then have less: "j < expo x" by simp
  then have "expo x \<noteq> - 1074" using assms(2) by simp
  then have "2 powi (expo x + 52) \<le> \<bar>x\<bar>" using expo_lower [of x] by auto
  moreover have "(2::rat) powi (j + 53) \<le> 2 powi (expo x + 52)"
    using less by (intro two_powi_mono) simp
  ultimately show False using assms(1) by linarith
qed

lemma fl_zero: "fl 0 = 0"
  by (simp add: fl_def)

lemma fl_alt: "fl x = of_int (round_even (x / 2 powi expo x)) * 2 powi expo x"
  by (simp add: fl_def round_even_def)

lemma grid_scale:
  assumes "e \<le> j"
  shows "of_int m * (2::rat) powi j / 2 powi e = of_int (m * 2 ^ nat (j - e))"
proof -
  have "(2::rat) powi j = 2 powi (j - e) * 2 powi e"
    by (simp flip: power_int_add)
  moreover have "(2::rat) powi (j - e) = 2 ^ nat (j - e)"
    using assms by (simp add: power_int_def)
  ultimately show ?thesis by simp
qed

lemma grid_unscale:
  assumes "e \<le> j"
  shows "rat_of_int (m * 2 ^ nat (j - e)) * 2 powi e = of_int m * 2 powi j"
proof -
  have "(2::rat) powi j = 2 powi (j - e) * 2 powi e"
    by (simp flip: power_int_add)
  moreover have "(2::rat) powi (j - e) = 2 ^ nat (j - e)"
    using assms by (simp add: power_int_def)
  ultimately show ?thesis by simp
qed

lemma fl_le_grid:
  assumes "x \<le> of_int m * 2 powi j" "expo x \<le> j"
  shows "fl x \<le> of_int m * 2 powi j"
proof -
  have pos: "(0::rat) < 2 powi expo x" by (simp add: zero_less_power_int)
  have "x / 2 powi expo x \<le> of_int m * 2 powi j / 2 powi expo x"
    using assms(1) pos by (simp add: divide_right_mono)
  then have "x / 2 powi expo x \<le> of_int (m * 2 ^ nat (j - expo x))"
    by (simp only: grid_scale [OF assms(2)])
  then have "round_even (x / 2 powi expo x) \<le> m * 2 ^ nat (j - expo x)"
    by (rule round_even_le)
  then have "rat_of_int (round_even (x / 2 powi expo x)) \<le> of_int (m * 2 ^ nat (j - expo x))"
    by (simp only: of_int_le_iff)
  then have "fl x \<le> of_int (m * 2 ^ nat (j - expo x)) * 2 powi expo x"
    unfolding fl_alt using pos by (simp only: mult_le_cancel_right_pos)
  also have "\<dots> = of_int m * 2 powi j"
    by (rule grid_unscale [OF assms(2)])
  finally show ?thesis .
qed

lemma fl_ge_grid:
  assumes "of_int m * 2 powi j \<le> x" "expo x \<le> j"
  shows "of_int m * 2 powi j \<le> fl x"
proof -
  have pos: "(0::rat) < 2 powi expo x" by (simp add: zero_less_power_int)
  have "of_int m * 2 powi j / 2 powi expo x \<le> x / 2 powi expo x"
    using assms(1) pos by (simp add: divide_right_mono)
  then have "of_int (m * 2 ^ nat (j - expo x)) \<le> x / 2 powi expo x"
    by (simp only: grid_scale [OF assms(2)])
  then have "m * 2 ^ nat (j - expo x) \<le> round_even (x / 2 powi expo x)"
    by (rule round_even_ge)
  then have "rat_of_int (m * 2 ^ nat (j - expo x)) \<le> of_int (round_even (x / 2 powi expo x))"
    by (simp only: of_int_le_iff)
  then have "of_int (m * 2 ^ nat (j - expo x)) * 2 powi expo x \<le> fl x"
    unfolding fl_alt using pos by (simp only: mult_le_cancel_right_pos)
  then show ?thesis by (simp only: grid_unscale [OF assms(2)])
qed

lemma fl_nonneg: "0 \<le> x \<Longrightarrow> 0 \<le> fl x"
  using fl_ge_grid [of 0 "expo x" x] by simp

lemma fl_nonpos: "x \<le> 0 \<Longrightarrow> fl x \<le> 0"
  using fl_le_grid [of x 0 "expo x"] by simp

lemma fl_mono_nonneg:
  assumes "0 \<le> x" "x \<le> y"
  shows "fl x \<le> fl y"
proof -
  have le: "expo x \<le> expo y" using assms by (intro expo_mono) simp
  show ?thesis
  proof (cases "expo x = expo y")
    case True
    have pos: "(0::rat) < 2 powi expo y" by (simp add: zero_less_power_int)
    have "x / 2 powi expo y \<le> y / 2 powi expo y"
      using assms(2) pos by (simp add: divide_right_mono)
    then have "round_even (x / 2 powi expo y) \<le> round_even (y / 2 powi expo y)"
      by (rule round_even_mono)
    then show ?thesis using pos by (simp add: fl_alt True)
  next
    case False
    with le have less: "expo x < expo y" by simp
    with expo_range [of x] expo_range [of y] have "expo y \<noteq> - 1074" "expo x \<noteq> 971"
      by linarith+
    then have b: "2 powi (expo y + 52) \<le> \<bar>y\<bar>" "\<bar>x\<bar> < 2 powi (expo x + 53)"
      using expo_lower [of y] expo_upper [of x] by auto
    have "(2::rat) powi (expo x + 53) \<le> 2 powi (expo y + 52)"
      using less by (intro two_powi_mono) simp
    with b(2) assms(1) have "x \<le> of_int 1 * 2 powi (expo y + 52)" by simp
    then have "fl x \<le> of_int 1 * 2 powi (expo y + 52)"
      using less by (intro fl_le_grid) simp_all
    moreover have "of_int 1 * 2 powi (expo y + 52) \<le> y" using b(1) assms by simp
    then have "of_int 1 * 2 powi (expo y + 52) \<le> fl y"
      by (intro fl_ge_grid) simp_all
    ultimately show ?thesis by simp
  qed
qed

text \<open>
  The distance between a number and its double is at most half a unit of the last place.
\<close>

lemma fl_error: "\<bar>fl x - x\<bar> \<le> 2 powi (expo x) / 2"
proof -
  have pos: "(0::rat) < 2 powi expo x" by (simp add: zero_less_power_int)
  have "fl x - x = (of_int (round_even (x / 2 powi expo x)) - x / 2 powi expo x) * 2 powi expo x"
    using pos by (simp add: fl_alt algebra_simps)
  then have "\<bar>fl x - x\<bar> = \<bar>of_int (round_even (x / 2 powi expo x)) - x / 2 powi expo x\<bar> * 2 powi expo x"
    using pos by (simp add: abs_mult)
  also have "\<dots> \<le> 1 / 2 * 2 powi expo x"
    using round_even_error [of "x / 2 powi expo x"] pos by (intro mult_right_mono) simp_all
  finally show ?thesis by simp
qed

lemma fl_error_bound:
  assumes "\<bar>x\<bar> < 2 powi (j + 53)" "- 1074 \<le> j"
  shows "\<bar>fl x - x\<bar> \<le> 2 powi j / 2"
proof -
  have "expo x \<le> j" using assms by (rule expo_le_of_bound)
  then have "(2::rat) powi expo x \<le> 2 powi j" by (rule two_powi_mono)
  with fl_error [of x] show ?thesis by linarith
qed

text \<open>
  A multiple of one half below \<open>2 ^ 52\<close> is a double: the sums of the skill match and
  mutual benefit scorers are exact.
\<close>

lemma fl_half_integer:
  assumes "\<bar>rat_of_int m / 2\<bar> < 2 ^ 52"
  shows "fl (of_int m / 2) = of_int m / 2"
proof -
  have p: "(2::rat) powi (- 1) = 1 / 2" "(2::rat) powi (- 1 + 53) = 2 ^ 52"
    by (simp_all add: power_int_def)
  have x: "rat_of_int m / 2 = of_int m * 2 powi (- 1)" unfolding p by simp
  have "\<bar>rat_of_int m / 2\<bar> < 2 powi (- 1 + 53)" unfolding p using assms .
  then have e: "expo (of_int m / 2) \<le> - 1" by (rule expo_le_of_bound) simp
  have "rat_of_int m / 2 \<le> of_int m * 2 powi (- 1)" unfolding p by simp
  then have u: "fl (of_int m / 2) \<le> of_int m * 2 powi (- 1)" using e by (rule fl_le_grid)
  have "of_int m * 2 powi (- 1) \<le> rat_of_int m / 2" unfolding p by simp
  then have l: "of_int m * 2 powi (- 1) \<le> fl (of_int m / 2)" using e by (rule fl_ge_grid)
  from u l show ?thesis unfolding p by simp
qed

section \<open>The compatibility score: double arithmetic, rounding and bounds\<close>

lemma calculateLocationScore_values:
  "calculateLocationScore a b \<in> {Num 0, Num 5, Num 8, Num 10}"
  by (simp add: calculateLocationScore_def Let_def)

lemma calculateCompatibilityScore_Num:
  assumes "calculateSkillMatchScore currentUser otherUser = Num s"
    and "calculateMutualBenefitScore currentUser otherUser = Num m"
    and "calculateLocationScore (location currentUser) (location otherUser) = Num l"
  shows "calculateCompatibilityScore now currentUser otherUser =
         \<lparr>totalScore =
            Num (round2_64
                   (weighted64 s m (rating64 (averageRating otherUser))
                      (activity64 now (lastActive otherUser)) l)),
          breakdown =
            \<lparr>skillMatch = Num s, mutualBenefit = Num m,
             ratingBonus = Num (rating64 (averageRating otherUser)),
             activityBonus = Num (activity64 now (lastActive otherUser)),
             locationBonus = Num l\<rparr>\<rparr>"
  by (simp add: calculateCompatibilityScore_def Let_def assms rating64_def days64_def
      activity64_def weighted64_def round2_64_def)

lemma skillMatchPoints_nonneg: "0 \<le> skillMatchPoints w s"
  by (simp add: skillMatchPoints_def skillPriorityBonus_def levelCompatibilityBonus_def
      spec_levelScore_def spec_priorityMultiplier_def)

lemma mutualMatchPoints_nonneg: "0 \<le> mutualMatchPoints s w"
  by (simp add: mutualMatchPoints_def mutualPriorityBonus_def levelCompatibilityBonus_def
      spec_levelScore_def spec_priorityMultiplier_def)

lemma spec_skillMatch_bounds: "0 \<le> spec_skillMatch a b \<and> spec_skillMatch a b \<le> 20"
proof -
  have "0 \<le> (\<Sum>w\<leftarrow>ws. skillMatchPoints w (hd (offers b (wanted_name w))))" for ws
    by (rule sum_list_nonneg) (auto simp: skillMatchPoints_nonneg)
  then show ?thesis by (simp add: spec_skillMatch_def)
qed

lemma spec_mutualBenefit_bounds: "0 \<le> spec_mutualBenefit a b \<and> spec_mutualBenefit a b \<le> 25"
proof -
  have p: "0 \<le> (\<Sum>s\<leftarrow>ss. mutualMatchPoints s (hd (wants b (offered_name s))))" for ss
    by (rule sum_list_nonneg) (auto simp: mutualMatchPoints_nonneg)
  have "0 \<le> rat_of_nat n * 5 - 5" if "Suc 0 < n" for n
    using that by (cases n) simp_all
  then show ?thesis
    by (simp add: spec_mutualBenefit_def Let_def p add_nonneg_nonneg algebra_simps)
qed

lemma calculateSkillMatchScore_bounds:
  assumes "schema_valid currentUser" "schema_valid candidate"
  shows "\<exists>s. calculateSkillMatchScore currentUser candidate = Num s \<and> 0 \<le> s \<and> s \<le> 20"
proof -
  have ws: "list_all (\<lambda>w. wanted_priority w \<in> set priority_values) (skillsWanted currentUser)"
    using assms(1) by (simp add: schema_valid_def)
  have "calculateSkillMatchScore currentUser candidate = Num (spec_skillMatch currentUser candidate)"
    by (simp add: calculateSkillMatchScore_def spec_skillMatch_def
        fold_skillMatch_step [OF assms(2) ws])
  then show ?thesis using spec_skillMatch_bounds by blast
qed

lemma calculateMutualBenefitScore_bounds:
  assumes "schema_valid currentUser" "schema_valid candidate"
  shows "\<exists>m. calculateMutualBenefitScore currentUser candidate = Num m \<and> 0 \<le> m \<and> m \<le> 25"
proof -
  have os: "list_all (\<lambda>s. offered_level s \<in> set level_values) (skillsOffered currentUser)"
    using assms(1) by (simp add: schema_valid_def)
  have "calculateMutualBenefitScore currentUser candidate =
        Num (spec_mutualBenefit currentUser candidate)"
    by (simp add: calculateMutualBenefitScore_def spec_mutualBenefit_def Let_def
        fold_mutualBenefit_step [OF assms(2) os])
  then show ?thesis using spec_mutualBenefit_bounds by blast
qed

lemma calculateLocationScore_bounds:
  "\<exists>l. calculateLocationScore a b = Num l \<and> 0 \<le> l \<and> l \<le> 10"
  using calculateLocationScore_values [of a b] by auto

text \<open>The doubles of the largest weighted sub-scores and of their partial sums.\<close>

lemma fl_top_products:
  "fl (20 * fl (4 / 10)) = 8" "fl (25 * fl (3 / 10)) = 15 / 2" "fl (10 * fl (15 / 100)) = 3 / 2"
  "fl (10 * fl (1 / 10)) = 1" "fl (10 * fl (5 / 100)) = 1 / 2"
  by code_simp+

lemma fl_top_sums:
  "fl 8 = 8" "fl (8 + 15 / 2) = 31 / 2" "fl (31 / 2 + 3 / 2) = 17" "fl (17 + 1) = 18"
  "fl (18 + 1 / 2) = 37 / 2" "fl (37 / 2 * 100) = 1850" "fl (1850 / 100) = 37 / 2" "fl 10 = 10"
  by code_simp+

lemma fl_weights_nonneg:
  "0 \<le> fl (4 / 10)" "0 \<le> fl (3 / 10)" "0 \<le> fl (15 / 100)" "0 \<le> fl (1 / 10)" "0 \<le> fl (5 / 100)"
  by (simp_all add: fl_nonneg)

lemma fl_product_bounds:
  assumes "0 \<le> x" "x \<le> c" "0 \<le> w"
  shows "0 \<le> fl (x * w) \<and> fl (x * w) \<le> fl (c * w)"
proof -
  have "0 \<le> x * w" "x * w \<le> c * w" using assms by (simp_all add: mult_right_mono)
  then show ?thesis by (simp add: fl_nonneg fl_mono_nonneg)
qed

lemma fl_sum_bounds:
  assumes "0 \<le> x" "x \<le> c" "0 \<le> y" "y \<le> d"
  shows "0 \<le> fl (x + y) \<and> fl (x + y) \<le> fl (c + d)"
proof -
  have "0 \<le> x + y" "x + y \<le> c + d" using assms by simp_all
  then show ?thesis by (simp add: fl_nonneg fl_mono_nonneg)
qed

lemma weighted64_bounds:
  assumes "0 \<le> s" "s \<le> 20" "0 \<le> m" "m \<le> 25" "0 \<le> r" "r \<le> 10"
    and "0 \<le> a" "a \<le> 10" "0 \<le> l" "l \<le> 10"
  shows "0 \<le> weighted64 s m r a l \<and> weighted64 s m r a l \<le> 37 / 2"
proof -
  have p1: "0 \<le> fl (s * fl (4 / 10)) \<and> fl (s * fl (4 / 10)) \<le> 8"
    using fl_product_bounds [OF assms(1,2) fl_weights_nonneg(1)] fl_top_products(1) by linarith
  have p2: "0 \<le> fl (m * fl (3 / 10)) \<and> fl (m * fl (3 / 10)) \<le> 15 / 2"
    using fl_product_bounds [OF assms(3,4) fl_weights_nonneg(2)] fl_top_products(2) by linarith
  have p3: "0 \<le> fl (r * fl (15 / 100)) \<and> fl (r * fl (15 / 100)) \<le> 3 / 2"
    using fl_product_bounds [OF assms(5,6) fl_weights_nonneg(3)] fl_top_products(3) by linarith
  have p4: "0 \<le> fl (a * fl (1 / 10)) \<and> fl (a * fl (1 / 10)) \<le> 1"
    using fl_product_bounds [OF assms(7,8) fl_weights_nonneg(4)] fl_top_products(4) by linarith
  have p5: "0 \<le> fl (l * fl (5 / 100)) \<and> fl (l * fl (5 / 100)) \<le> 1 / 2"
    using fl_product_bounds [OF assms(9,10) fl_weights_nonneg(5)] fl_top_products(5) by linarith
  define t1 where "t1 = fl (0 + fl (s * fl (4 / 10)))"
  define t2 where "t2 = fl (t1 + fl (m * fl (3 / 10)))"
  define t3 where "t3 = fl (t2 + fl (r * fl (15 / 100)))"
  define t4 where "t4 = fl (t3 + fl (a * fl (1 / 10)))"
  define t5 where "t5 = fl (t4 + fl (l * fl (5 / 100)))"
  have "0 \<le> t1 \<and> t1 \<le> fl (0 + 8)"
    unfolding t1_def using p1 by (intro fl_sum_bounds) simp_all
  then have t1: "0 \<le> t1" "t1 \<le> 8" using fl_top_sums(1) by simp_all
  have "0 \<le> t2 \<and> t2 \<le> fl (8 + 15 / 2)"
    unfolding t2_def using t1 p2 by (intro fl_sum_bounds) simp_all
  then have t2: "0 \<le> t2" "t2 \<le> 31 / 2" using fl_top_sums(2) by linarith+
  have "0 \<le> t3 \<and> t3 \<le> fl (31 / 2 + 3 / 2)"
    unfolding t3_def using t2 p3 by (intro fl_sum_bounds) simp_all
  then have t3: "0 \<le> t3" "t3 \<le> 17" using fl_top_sums(3) by linarith+
  have "0 \<le> t4 \<and> t4 \<le> fl (17 + 1)"
    unfolding t4_def using t3 p4 by (intro fl_sum_bounds) simp_all
  then have t4: "0 \<le> t4" "t4 \<le> 18" using fl_top_sums(4) by linarith+
  have "0 \<le> t5 \<and> t5 \<le> fl (18 + 1 / 2)"
    unfolding t5_def using t4 p5 by (intro fl_sum_bounds) simp_all
  then have "0 \<le> t5 \<and> t5 \<le> 37 / 2" using fl_top_sums(5) by linarith
  moreover have "weighted64 s m r a l = t5"
    by (simp only: weighted64_def t1_def t2_def t3_def t4_def t5_def)
  ultimately show ?thesis by simp
qed

lemma round2_64_bounds:
  assumes "0 \<le> x" "x \<le> 37 / 2"
  shows "0 \<le> round2_64 x \<and> round2_64 x \<le> 37 / 2"
proof -
  have x: "0 \<le> x * 100" "x * 100 \<le> 37 / 2 * 100" using assms by simp_all
  have h: "0 \<le> fl (x * 100)" "fl (x * 100) \<le> 1850"
    using fl_nonneg [OF x(1)] fl_mono_nonneg [OF x] fl_top_sums(6) by linarith+
  have k: "0 \<le> \<lfloor>fl (x * 100) + 1 / 2\<rfloor>" "\<lfloor>fl (x * 100) + 1 / 2\<rfloor> \<le> 1850"
    using h by (simp_all add: floor_le_iff)
  then have "0 \<le> rat_of_int \<lfloor>fl (x * 100) + 1 / 2\<rfloor> / 100"
    "rat_of_int \<lfloor>fl (x * 100) + 1 / 2\<rfloor> / 100 \<le> 1850 / 100"
    by (simp_all add: divide_le_eq)
  then have "0 \<le> round2_64 x \<and> round2_64 x \<le> fl (1850 / 100)"
    unfolding round2_64_def by (intro conjI fl_nonneg fl_mono_nonneg)
  then show ?thesis using fl_top_sums(7) by linarith
qed

lemma rating64_bounds: "0 \<le> avg \<Longrightarrow> 0 \<le> rating64 avg \<and> rating64 avg \<le> 10"
  by (simp add: rating64_def fl_nonneg)

lemma days64_nonneg: "lastSeen \<le> now \<Longrightarrow> 0 \<le> days64 now lastSeen"
proof -
  assume "lastSeen \<le> now"
  then have "0 \<le> fl (rat_of_int now - rat_of_int lastSeen)" by (simp add: fl_nonneg)
  then have "0 \<le> fl (fl (rat_of_int now - rat_of_int lastSeen) / 86400000)"
    by (simp add: fl_nonneg)
  then show ?thesis by (simp add: days64_def)
qed

lemma activity64_bounds:
  assumes "lastSeen \<le> now"
  shows "0 \<le> activity64 now lastSeen \<and> activity64 now lastSeen \<le> 10"
proof -
  let ?x = "10 - rat_of_int (days64 now lastSeen)"
  have le: "?x \<le> 10" using days64_nonneg [OF assms] by simp
  have "fl ?x \<le> 10"
  proof (cases "0 \<le> ?x")
    case True
    then show ?thesis using fl_mono_nonneg [OF True le] fl_top_sums(8) by linarith
  next
    case False
    then have "fl ?x \<le> 0" by (intro fl_nonpos) simp
    then show ?thesis by simp
  qed
  then show ?thesis by (simp add: activity64_def)
qed

text \<open>
  The distance between the weighted sum in doubles and the exact weighted sum.
\<close>

lemma fl_weight_errors:
  "\<bar>fl (4 / 10) - 4 / 10\<bar> \<le> 1 / 2 ^ 54" "\<bar>fl (3 / 10) - 3 / 10\<bar> \<le> 1 / 2 ^ 54"
  "\<bar>fl (15 / 100) - 15 / 100\<bar> \<le> 1 / 2 ^ 54" "\<bar>fl (1 / 10) - 1 / 10\<bar> \<le> 1 / 2 ^ 54"
  "\<bar>fl (5 / 100) - 5 / 100\<bar> \<le> 1 / 2 ^ 54"
  by code_simp+

lemma fl_weights_le_half:
  "fl (4 / 10) \<le> 1 / 2" "fl (3 / 10) \<le> 1 / 2" "fl (15 / 100) \<le> 1 / 2" "fl (1 / 10) \<le> 1 / 2"
  "fl (5 / 100) \<le> 1 / 2"
  by code_simp+

lemma fl_product_error:
  assumes "0 \<le> x" "x \<le> 25" "0 \<le> w" "w \<le> 1 / 2" "\<bar>w - c\<bar> \<le> 1 / 2 ^ 54"
  shows "\<bar>fl (x * w) - x * c\<bar> \<le> 3 / 2 ^ 50"
proof -
  have "x * w \<le> 25 * (1 / 2)" using assms(1-4) by (intro mult_mono) simp_all
  moreover have "0 \<le> x * w" using assms(1,3) by simp
  ultimately have "\<bar>x * w\<bar> < 2 powi (- 49 + 53)" by (simp add: power_int_def)
  then have "\<bar>fl (x * w) - x * w\<bar> \<le> 2 powi (- 49) / 2"
    by (rule fl_error_bound) simp
  then have e1: "\<bar>fl (x * w) - x * w\<bar> \<le> 1 / 2 ^ 50"
    by (simp add: power_int_def field_simps)
  have "\<bar>x * w - x * c\<bar> = x * \<bar>w - c\<bar>"
    using assms(1) by (simp add: abs_mult flip: right_diff_distrib)
  also have "\<dots> \<le> 25 * (1 / 2 ^ 54)"
    using assms(1,2,5) by (intro mult_mono) simp_all
  finally have e2: "\<bar>x * w - x * c\<bar> \<le> 2 / 2 ^ 50" by simp
  from e1 e2 show ?thesis by linarith
qed

lemma fl_sum_error:
  assumes "0 \<le> x" "x < 32"
  shows "\<bar>fl x - x\<bar> \<le> 1 / 2 ^ 49"
proof -
  have "\<bar>x\<bar> < 2 powi (- 48 + 53)" using assms by (simp add: power_int_def)
  then have "\<bar>fl x - x\<bar> \<le> 2 powi (- 48) / 2"
    by (rule fl_error_bound) simp
  then show ?thesis by (simp add: power_int_def field_simps)
qed

lemma weighted64_error:
  assumes "0 \<le> s" "s \<le> 20" "0 \<le> m" "m \<le> 25" "0 \<le> r" "r \<le> 10"
    and "0 \<le> a" "a \<le> 10" "0 \<le> l" "l \<le> 10"
  shows "\<bar>weighted64 s m r a l - weighted s m r a l\<bar> \<le> 25 / 2 ^ 50"
proof -
  define p1 where "p1 = fl (s * fl (4 / 10))"
  define p2 where "p2 = fl (m * fl (3 / 10))"
  define p3 where "p3 = fl (r * fl (15 / 100))"
  define p4 where "p4 = fl (a * fl (1 / 10))"
  define p5 where "p5 = fl (l * fl (5 / 100))"
  define t1 where "t1 = fl (0 + p1)"
  define t2 where "t2 = fl (t1 + p2)"
  define t3 where "t3 = fl (t2 + p3)"
  define t4 where "t4 = fl (t3 + p4)"
  define t5 where "t5 = fl (t4 + p5)"
  have b1: "0 \<le> p1 \<and> p1 \<le> 8"
    unfolding p1_def
    using fl_product_bounds [OF assms(1,2) fl_weights_nonneg(1)] fl_top_products(1) by linarith
  have b2: "0 \<le> p2 \<and> p2 \<le> 15 / 2"
    unfolding p2_def
    using fl_product_bounds [OF assms(3,4) fl_weights_nonneg(2)] fl_top_products(2) by linarith
  have b3: "0 \<le> p3 \<and> p3 \<le> 3 / 2"
    unfolding p3_def
    using fl_product_bounds [OF assms(5,6) fl_weights_nonneg(3)] fl_top_products(3) by linarith
  have b4: "0 \<le> p4 \<and> p4 \<le> 1"
    unfolding p4_def
    using fl_product_bounds [OF assms(7,8) fl_weights_nonneg(4)] fl_top_products(4) by linarith
  have b5: "0 \<le> p5 \<and> p5 \<le> 1 / 2"
    unfolding p5_def
    using fl_product_bounds [OF assms(9,10) fl_weights_nonneg(5)] fl_top_products(5) by linarith
  have "0 \<le> t1 \<and> t1 \<le> fl (0 + 8)"
    unfolding t1_def using b1 by (intro fl_sum_bounds) simp_all
  then have c1: "0 \<le> t1" "t1 \<le> 8" using fl_top_sums(1) by simp_all
  have "0 \<le> t2 \<and> t2 \<le> fl (8 + 15 / 2)"
    unfolding t2_def using c1 b2 by (intro fl_sum_bounds) simp_all
  then have c2: "0 \<le> t2" "t2 \<le> 31 / 2" using fl_top_sums(2) by linarith+
  have "0 \<le> t3 \<and> t3 \<le> fl (31 / 2 + 3 / 2)"
    unfolding t3_def using c2 b3 by (intro fl_sum_bounds) simp_all
  then have c3: "0 \<le> t3" "t3 \<le> 17" using fl_top_sums(3) by linarith+
  have "0 \<le> t4 \<and> t4 \<le> fl (17 + 1)"
    unfolding t4_def using c3 b4 by (intro fl_sum_bounds) simp_all
  then have c4: "0 \<le> t4" "t4 \<le> 18" using fl_top_sums(4) by linarith+
  have e1: "\<bar>p1 - s * (4 / 10)\<bar> \<le> 3 / 2 ^ 50"
    unfolding p1_def using assms(1,2)
    by (intro fl_product_error fl_weights_nonneg fl_weights_le_half fl_weight_errors) simp_all
  have e2: "\<bar>p2 - m * (3 / 10)\<bar> \<le> 3 / 2 ^ 50"
    unfolding p2_def using assms(3,4)
    by (intro fl_product_error fl_weights_nonneg fl_weights_le_half fl_weight_errors) simp_all
  have e3: "\<bar>p3 - r * (15 / 100)\<bar> \<le> 3 / 2 ^ 50"
    unfolding p3_def using assms(5,6)
    by (intro fl_product_error fl_weights_nonneg fl_weights_le_half fl_weight_errors) simp_all
  have e4: "\<bar>p4 - a * (1 / 10)\<bar> \<le> 3 / 2 ^ 50"
    unfolding p4_def using assms(7,8)
    by (intro fl_product_error fl_weights_nonneg fl_weights_le_half fl_weight_errors) simp_all
  have e5: "\<bar>p5 - l * (5 / 100)\<bar> \<le> 3 / 2 ^ 50"
    unfolding p5_def using assms(9,10)
    by (intro fl_product_error fl_weights_nonneg fl_weights_le_half fl_weight_errors) simp_all
  have f1: "\<bar>t1 - (0 + p1)\<bar> \<le> 1 / 2 ^ 49"
    unfolding t1_def using b1 by (intro fl_sum_error) simp_all
  have f2: "\<bar>t2 - (t1 + p2)\<bar> \<le> 1 / 2 ^ 49"
    unfolding t2_def using c1 b2 by (intro fl_sum_error) simp_all
  have f3: "\<bar>t3 - (t2 + p3)\<bar> \<le> 1 / 2 ^ 49"
    unfolding t3_def using c2 b3 by (intro fl_sum_error) simp_all
  have f4: "\<bar>t4 - (t3 + p4)\<bar> \<le> 1 / 2 ^ 49"
    unfolding t4_def using c3 b4 by (intro fl_sum_error) simp_all
  have f5: "\<bar>t5 - (t4 + p5)\<bar> \<le> 1 / 2 ^ 49"
    unfolding t5_def using c4 b5 by (intro fl_sum_error) simp_all
  have w64: "weighted64 s m r a l = t5"
    by (simp only: weighted64_def p1_def p2_def p3_def p4_def p5_def t1_def t2_def t3_def
        t4_def t5_def)
  have w: "weighted s m r a l
      = s * (4 / 10) + m * (3 / 10) + r * (15 / 100) + a * (1 / 10) + l * (5 / 100)"
    by (simp add: weighted_def)
  have "\<bar>t5 - (s * (4 / 10) + m * (3 / 10) + r * (15 / 100) + a * (1 / 10) + l * (5 / 100))\<bar>
        \<le> 5 * (3 / 2 ^ 50) + 5 * (1 / 2 ^ 49)"
    using e1 e2 e3 e4 e5 f1 f2 f3 f4 f5 unfolding abs_le_iff by linarith
  then show ?thesis unfolding w64 w by simp
qed

lemma floor_stable:
  fixes y :: rat
  assumes "\<bar>y' - y\<bar> \<le> d" "d < e" "e \<le> frac (y + 1 / 2)" "frac (y + 1 / 2) \<le> 1 - e"
  shows "\<lfloor>y' + 1 / 2\<rfloor> = \<lfloor>y + 1 / 2\<rfloor>"
proof (rule floor_unique)
  from assms show "of_int \<lfloor>y + 1 / 2\<rfloor> \<le> y' + 1 / 2" unfolding frac_def by linarith
  from assms show "y' + 1 / 2 < of_int \<lfloor>y + 1 / 2\<rfloor> + 1" unfolding frac_def by linarith
qed

lemma floor_half_up:
  fixes y :: rat
  shows "\<lfloor>y + 1 / 2\<rfloor> = (if \<lfloor>y * 10\<rfloor> mod 10 \<ge> 5 then \<lfloor>y\<rfloor> + 1 else \<lfloor>y\<rfloor>)"
proof -
  define n where "n = \<lfloor>y\<rfloor>"
  define f where "f = y - of_int n"
  have f: "0 \<le> f" "f < 1" unfolding f_def n_def by linarith+
  have y: "y = of_int n + f" by (simp add: f_def)
  have "y * 10 = f * 10 + of_int (10 * n)" by (simp add: y algebra_simps)
  then have "\<lfloor>y * 10\<rfloor> = \<lfloor>f * 10 + of_int (10 * n)\<rfloor>" by simp
  also have "\<dots> = \<lfloor>f * 10\<rfloor> + 10 * n" by (rule floor_add_int [symmetric])
  finally have "\<lfloor>y * 10\<rfloor> = 10 * n + \<lfloor>f * 10\<rfloor>" by simp
  moreover have d: "0 \<le> \<lfloor>f * 10\<rfloor>" "\<lfloor>f * 10\<rfloor> < 10" using f by (simp_all add: floor_less_iff)
  ultimately have m: "\<lfloor>y * 10\<rfloor> mod 10 = \<lfloor>f * 10\<rfloor>" by simp
  have g: "5 \<le> \<lfloor>f * 10\<rfloor> \<longleftrightarrow> 1 / 2 \<le> f" by (simp add: le_floor_iff) linarith
  show ?thesis
  proof (cases "1 / 2 \<le> f")
    case True
    then have "\<lfloor>y + 1 / 2\<rfloor> = n + 1" using f by (simp add: y floor_eq_iff)
    then show ?thesis using True m g by (simp add: n_def)
  next
    case False
    then have "\<lfloor>y + 1 / 2\<rfloor> = n" using f by (simp add: y floor_eq_iff)
    then show ?thesis using False m g by (simp add: n_def)
  qed
qed

lemma round2_half_up_floor: "of_int \<lfloor>x * 100 + 1 / 2\<rfloor> / 100 = round2_half_up x"
  using floor_half_up [of "x * 100"]
  by (simp add: round2_half_up_def Let_def mult.assoc)

text \<open>
  Away from a tie of the third decimal, \<^verbatim>\<open>Math.round(x * 100) / 100\<close> on the sum in
  doubles is the double of the exact sum rounded half up.
\<close>

lemma round2_64_weighted64:
  assumes "0 \<le> s" "s \<le> 20" "0 \<le> m" "m \<le> 25" "0 \<le> r" "r \<le> 10"
    and "0 \<le> a" "a \<le> 10" "0 \<le> l" "l \<le> 10"
    and "1 / 2 ^ 37 \<le> frac (weighted s m r a l * 100 + 1 / 2)"
    and "frac (weighted s m r a l * 100 + 1 / 2) \<le> 1 - 1 / 2 ^ 37"
  shows "round2_64 (weighted64 s m r a l) = fl (round2_half_up (weighted s m r a l))"
proof -
  let ?W = "weighted64 s m r a l" and ?E = "weighted s m r a l"
  have wb: "0 \<le> ?W" "?W \<le> 37 / 2"
    using weighted64_bounds [OF assms(1-10)] by simp_all
  have we: "\<bar>?W - ?E\<bar> \<le> 25 / 2 ^ 50" using assms(1-10) by (rule weighted64_error)
  have "\<bar>?W * 100\<bar> < 2 powi (- 42 + 53)" using wb by (simp add: power_int_def)
  then have "\<bar>fl (?W * 100) - ?W * 100\<bar> \<le> 2 powi (- 42) / 2"
    by (rule fl_error_bound) simp
  then have e1: "\<bar>fl (?W * 100) - ?W * 100\<bar> \<le> 128 / 2 ^ 50"
    by (simp add: power_int_def field_simps)
  have e2: "\<bar>?W * 100 - ?E * 100\<bar> \<le> 2500 / 2 ^ 50"
    using we unfolding abs_le_iff by linarith
  have "\<bar>fl (?W * 100) - ?E * 100\<bar> \<le> 2628 / 2 ^ 50"
    using e1 e2 unfolding abs_le_iff by linarith
  moreover have "(2628 :: rat) / 2 ^ 50 < 1 / 2 ^ 37" by simp
  ultimately have "\<lfloor>fl (?W * 100) + 1 / 2\<rfloor> = \<lfloor>?E * 100 + 1 / 2\<rfloor>"
    using assms(11,12) by (rule floor_stable)
  then show ?thesis by (simp only: round2_64_def round2_half_up_floor)
qed

text \<open>
  Claim C4, as amended. For profiles that satisfy the schema and every evaluation time,
  the five breakdown fields are numbers and the total score is
  \<^verbatim>\<open>Math.round(S * 100) / 100\<close>, where \<open>S\<close> is the weighted sum of these five numbers
  (weights 0.40, 0.30, 0.15, 0.10 and 0.05) accumulated in double arithmetic. When moreover
  the evaluation time is not earlier than the candidate's last activity, the candidate's
  average rating is in [0, 5], and the exact weighted sum times 100 is at least
  \<open>1 / 2 ^ 37\<close> away from a tie (an integer plus one half), the total score is the double
  nearest to the exact weighted sum rounded to two decimal places, half up on the third
  decimal.
\<close>

theorem calculateCompatibilityScore_weighted:
  assumes "schema_valid currentUser" "schema_valid candidate"
  shows "\<exists>s m r a l.
           breakdown (calculateCompatibilityScore now currentUser candidate) =
             \<lparr>skillMatch = Num s, mutualBenefit = Num m, ratingBonus = Num r,
              activityBonus = Num a, locationBonus = Num l\<rparr>
           \<and> totalScore (calculateCompatibilityScore now currentUser candidate) =
               Num (round2_64 (weighted64 s m r a l))
           \<and> (lastActive candidate \<le> now \<and> 0 \<le> averageRating candidate
                \<and> averageRating candidate \<le> 5
                \<and> 1 / 2 ^ 37 \<le> frac (weighted s m r a l * 100 + 1 / 2)
                \<and> frac (weighted s m r a l * 100 + 1 / 2) \<le> 1 - 1 / 2 ^ 37
              \<longrightarrow> totalScore (calculateCompatibilityScore now currentUser candidate) =
                    Num (fl (round2_half_up (weighted s m r a l))))"
proof -
  obtain s where s: "calculateSkillMatchScore currentUser candidate = Num s" "0 \<le> s" "s \<le> 20"
    using calculateSkillMatchScore_bounds [OF assms] by blast
  obtain m where m: "calculateMutualBenefitScore currentUser candidate = Num m" "0 \<le> m" "m \<le> 25"
    using calculateMutualBenefitScore_bounds [OF assms] by blast
  obtain l where l: "calculateLocationScore (location currentUser) (location candidate) = Num l"
      "0 \<le> l" "l \<le> 10"
    using calculateLocationScore_bounds by blast
  define r where "r = rating64 (averageRating candidate)"
  define a where "a = activity64 now (lastActive candidate)"
  have c: "calculateCompatibilityScore now currentUser candidate =
          \<lparr>totalScore = Num (round2_64 (weighted64 s m r a l)),
           breakdown =
             \<lparr>skillMatch = Num s, mutualBenefit = Num m, ratingBonus = Num r,
              activityBonus = Num a, locationBonus = Num l\<rparr>\<rparr>"
    by (simp add: calculateCompatibilityScore_Num [OF s(1) m(1) l(1)] r_def a_def)
  have "round2_64 (weighted64 s m r a l) = fl (round2_half_up (weighted s m r a l))"
    if "lastActive candidate \<le> now" "0 \<le> averageRating candidate"
      "1 / 2 ^ 37 \<le> frac (weighted s m r a l * 100 + 1 / 2)"
      "frac (weighted s m r a l * 100 + 1 / 2) \<le> 1 - 1 / 2 ^ 37"
  proof -
    have rb: "0 \<le> r" "r \<le> 10" using rating64_bounds [OF that(2)] by (simp_all add: r_def)
    have ab: "0 \<le> a" "a \<le> 10" using activity64_bounds [OF that(1)] by (simp_all add: a_def)
    show ?thesis
      using s(2,3) m(2,3) rb ab l(2,3) that(3,4) by (rule round2_64_weighted64)
  qed
  then show ?thesis unfolding c by (intro exI [of _ s] exI [of _ m] exI [of _ r] exI [of _ a] exI [of _ l]) simp
qed

text \<open>
  Claim C1. For profiles that satisfy the schema, an evaluation time not earlier than the
  candidate's last activity and an average rating of the candidate in [0, 5], the total
  score lies in [0, 18.5] and the unweighted breakdown fields respect their caps:
  skill match at most 20, mutual benefit at most 25, rating, activity and location bonus
  at most 10 each, and none is negative.
\<close>

theorem calculateCompatibilityScore_bounds:
  assumes "schema_valid currentUser" "schema_valid candidate"
    and "lastActive candidate \<le> now"
    and "0 \<le> averageRating candidate" "averageRating candidate \<le> 5"
  shows "\<exists>t s m r a l.
           calculateCompatibilityScore now currentUser candidate =
             \<lparr>totalScore = Num t,
              breakdown =
                \<lparr>skillMatch = Num s, mutualBenefit = Num m, ratingBonus = Num r,
                 activityBonus = Num a, locationBonus = Num l\<rparr>\<rparr>
           \<and> 0 \<le> t \<and> t \<le> 37 / 2
           \<and> 0 \<le> s \<and> s \<le> 20 \<and> 0 \<le> m \<and> m \<le> 25 \<and> 0 \<le> r \<and> r \<le> 10
           \<and> 0 \<le> a \<and> a \<le> 10 \<and> 0 \<le> l \<and> l \<le> 10"
proof -
  obtain s where s: "calculateSkillMatchScore currentUser candidate = Num s" "0 \<le> s" "s \<le> 20"
    using calculateSkillMatchScore_bounds [OF assms(1,2)] by blast
  obtain m where m: "calculateMutualBenefitScore currentUser candidate = Num m" "0 \<le> m" "m \<le> 25"
    using calculateMutualBenefitScore_bounds [OF assms(1,2)] by blast
  obtain l where l: "calculateLocationScore (location currentUser) (location candidate) = Num l"
      "0 \<le> l" "l \<le> 10"
    using calculateLocationScore_bounds by blast
  define r where "r = rating64 (averageRating candidate)"
  define a where "a = activity64 now (lastActive candidate)"
  have r: "0 \<le> r" "r \<le> 10" using rating64_bounds [OF assms(4)] by (simp_all add: r_def)
  have a: "0 \<le> a" "a \<le> 10" using activity64_bounds [OF assms(3)] by (simp_all add: a_def)
  have w: "0 \<le> weighted64 s m r a l" "weighted64 s m r a l \<le> 37 / 2"
    using weighted64_bounds [OF s(2,3) m(2,3) r a l(2,3)] by simp_all
  have t: "0 \<le> round2_64 (weighted64 s m r a l) \<and> round2_64 (weighted64 s m r a l) \<le> 37 / 2"
    using w by (rule round2_64_bounds)
  have "calculateCompatibilityScore now currentUser candidate =
          \<lparr>totalScore = Num (round2_64 (weighted64 s m r a l)),
           breakdown =
             \<lparr>skillMatch = Num s, mutualBenefit = Num m, ratingBonus = Num r,
              activityBonus = Num a, locationBonus = Num l\<rparr>\<rparr>"
    by (simp add: calculateCompatibilityScore_Num [OF s(1) m(1) l(1)] r_def a_def)
  then show ?thesis using t s(2,3) m(2,3) r a l(2,3) by blast
qed

lemmas scenario_defs =
  learner_def teacher_def calculateSkillMatchScore_def skillMatch_step_def
  calculateMutualBenefitScore_def mutualBenefit_step_def calculateLevelCompatibility_def
  or_else_def get_property_def levelScores_def priorityMultipliers_def Object_prototype_def
  toLowerCase_def lower_char_def

lemma learner_teacher_valid: "schema_valid learner" "schema_valid teacher"
  by (simp_all add: schema_valid_def learner_def teacher_def level_values_def
      priority_values_def)

lemma learner_teacher_skillMatch: "calculateSkillMatchScore learner teacher = Num 14"
  by (simp add: scenario_defs)

lemma learner_teacher_mutualBenefit: "calculateMutualBenefitScore learner teacher = Num 13"
  by (simp add: scenario_defs)

lemma new_york_location:
  "calculateLocationScore (Some ''New York, NY'') (Some ''New York, NY'') = Num 10"
  by (simp add: calculateLocationScore_def falsy_string_def)

lemma learner_teacher_location:
  "calculateLocationScore (location learner) (location teacher) = Num 10"
  "calculateLocationScore (location teacher) (location learner) = Num 10"
  by (simp_all add: learner_def teacher_def new_york_location)

text \<open>The doubles that the scenarios need.\<close>

lemma scenario_doubles:
  "rating64 5 = 10" "rating64 0 = 0" "rating64 (3 / 4) = 3 / 2"
  "activity64 1296000000 0 = 0" "activity64 0 0 = 10" "activity64 5 0 = 10"
  "activity64 5 1 = 10"
  by code_simp+

lemma fl_weights:
  "fl (4 / 10) = 3602879701896397 / 9007199254740992"
  "fl (3 / 10) = 5404319552844595 / 18014398509481984"
  "fl (15 / 100) = 5404319552844595 / 36028797018963968"
  "fl (1 / 10) = 3602879701896397 / 36028797018963968"
  "fl (5 / 100) = 3602879701896397 / 72057594037927936"
  by code_simp+

lemma scenario_totals:
  "round2_64 (weighted64 14 13 10 0 10) = 23 / 2"
  "round2_64 (weighted64 14 13 0 10 10) = 11"
  "round2_64 (weighted64 10 18 0 10 10) = fl (109 / 10)"
  "round2_64 (weighted64 0 0 0 10 10) = 3 / 2"
  "round2_64 (weighted64 14 13 10 10 10) = 25 / 2"
  "round2_64 (weighted64 0 0 (3 / 2) 0 0) = fl (22 / 100)"
  by (simp_all only: weighted64_def round2_64_def fl_weights) code_simp+

text \<open>
  Scenario 6: fifteen days after the teacher's last activity the sub-scores are
  14, 13, 10, 0 and 10, and the total is 11.5. The exact weighted sum is 11.5, far from a
  tie, so the total is also the exact sum rounded half up.
\<close>

theorem calculateCompatibilityScore_weighted_witness:
  "schema_valid learner \<and> schema_valid teacher
   \<and> breakdown (calculateCompatibilityScore 1296000000 learner teacher) =
       \<lparr>skillMatch = Num 14, mutualBenefit = Num 13, ratingBonus = Num 10,
        activityBonus = Num 0, locationBonus = Num 10\<rparr>
   \<and> totalScore (calculateCompatibilityScore 1296000000 learner teacher) = Num (23 / 2)
   \<and> totalScore (calculateCompatibilityScore 1296000000 learner teacher) =
       Num (fl (round2_half_up (weighted 14 13 10 0 10)))"
proof -
  obtain s m r a l where
    b: "breakdown (calculateCompatibilityScore 1296000000 learner teacher) =
          \<lparr>skillMatch = Num s, mutualBenefit = Num m, ratingBonus = Num r,
           activityBonus = Num a, locationBonus = Num l\<rparr>"
    and t: "totalScore (calculateCompatibilityScore 1296000000 learner teacher) =
          Num (round2_64 (weighted64 s m r a l))"
    and u: "lastActive teacher \<le> 1296000000 \<and> 0 \<le> averageRating teacher
          \<and> averageRating teacher \<le> 5
          \<and> 1 / 2 ^ 37 \<le> frac (weighted s m r a l * 100 + 1 / 2)
          \<and> frac (weighted s m r a l * 100 + 1 / 2) \<le> 1 - 1 / 2 ^ 37
        \<longrightarrow> totalScore (calculateCompatibilityScore 1296000000 learner teacher) =
              Num (fl (round2_half_up (weighted s m r a l)))"
    using calculateCompatibilityScore_weighted [OF learner_teacher_valid, of 1296000000]
    by blast
  have e: "breakdown (calculateCompatibilityScore 1296000000 learner teacher) =
          \<lparr>skillMatch = Num 14, mutualBenefit = Num 13, ratingBonus = Num 10,
           activityBonus = Num 0, locationBonus = Num 10\<rparr>"
    by (simp only: calculateCompatibilityScore_Num [OF learner_teacher_skillMatch
          learner_teacher_mutualBenefit learner_teacher_location(1)])
      (simp add: teacher_def scenario_doubles)
  from b e have v: "s = 14" "m = 13" "r = 10" "a = 0" "l = 10" by simp_all
  have t': "totalScore (calculateCompatibilityScore 1296000000 learner teacher) = Num (23 / 2)"
    using t by (simp only: v scenario_totals)
  have f: "frac (weighted 14 13 10 0 10 * 100 + 1 / 2) = 1 / 2"
    by code_simp
  have h: "lastActive teacher \<le> 1296000000" "0 \<le> averageRating teacher"
    "averageRating teacher \<le> 5"
    by (simp_all add: teacher_def)
  have "totalScore (calculateCompatibilityScore 1296000000 learner teacher) =
      Num (fl (round2_half_up (weighted 14 13 10 0 10)))"
    using u h unfolding v f by simp
  then show ?thesis using learner_teacher_valid e t' by simp
qed

text \<open>
  Claim C4 as stated fails. The newcomer is rated 0.75 and has no skills and no location,
  so fifteen days after the last activity the only sub-score is the rating bonus 1.5. The
  exact weighted sum is 0.225, which rounds half up to 0.23. In doubles 1.5 times 0.15 is
  0.22499999999999998, and the total score is the double of 0.22.
\<close>

theorem calculateCompatibilityScore_tie:
  "breakdown (calculateCompatibilityScore 1296000000 newcomer newcomer) =
       \<lparr>skillMatch = Num 0, mutualBenefit = Num 0, ratingBonus = Num (3 / 2),
        activityBonus = Num 0, locationBonus = Num 0\<rparr>
   \<and> totalScore (calculateCompatibilityScore 1296000000 newcomer newcomer) = Num (fl (22 / 100))
   \<and> round2_half_up (0 * (40 / 100) + 0 * (30 / 100) + 3 / 2 * (15 / 100) + 0 * (10 / 100)
        + 0 * (5 / 100)) = 23 / 100
   \<and> fl (22 / 100) < 23 / 100 \<and> fl (22 / 100) < fl (23 / 100)"
proof -
  have s: "calculateSkillMatchScore newcomer newcomer = Num 0"
    "calculateMutualBenefitScore newcomer newcomer = Num 0"
    by (simp_all add: newcomer_def calculateSkillMatchScore_def calculateMutualBenefitScore_def)
  have l: "calculateLocationScore (location newcomer) (location newcomer) = Num 0"
    by (simp add: newcomer_def calculateLocationScore_def falsy_string_def)
  have c: "calculateCompatibilityScore 1296000000 newcomer newcomer =
       \<lparr>totalScore = Num (fl (22 / 100)),
        breakdown =
          \<lparr>skillMatch = Num 0, mutualBenefit = Num 0, ratingBonus = Num (3 / 2),
           activityBonus = Num 0, locationBonus = Num 0\<rparr>\<rparr>"
    by (simp only: calculateCompatibilityScore_Num [OF s l])
      (simp add: newcomer_def scenario_doubles scenario_totals)
  have r: "round2_half_up (0 * (40 / 100) + 0 * (30 / 100) + 3 / 2 * (15 / 100) + 0 * (10 / 100)
        + 0 * (5 / 100)) = 23 / 100"
    by code_simp
  have d: "fl (22 / 100) < 23 / 100" "fl (22 / 100) < fl (23 / 100)"
    by code_simp+
  show ?thesis using c r d by simp
qed

text \<open>
  Five milliseconds after the teacher's last activity the activity bonus is 10 and the
  total 12.5.
\<close>

theorem calculateCompatibilityScore_bounds_witness:
  "schema_valid learner \<and> schema_valid teacher \<and> lastActive teacher \<le> 5
   \<and> 0 \<le> averageRating teacher \<and> averageRating teacher \<le> 5
   \<and> calculateCompatibilityScore 5 learner teacher =
       \<lparr>totalScore = Num (25 / 2),
        breakdown =
          \<lparr>skillMatch = Num 14, mutualBenefit = Num 13, ratingBonus = Num 10,
           activityBonus = Num 10, locationBonus = Num 10\<rparr>\<rparr>
   \<and> (\<exists>t s m r a l.
         calculateCompatibilityScore 5 learner teacher =
           \<lparr>totalScore = Num t,
            breakdown =
              \<lparr>skillMatch = Num s, mutualBenefit = Num m, ratingBonus = Num r,
               activityBonus = Num a, locationBonus = Num l\<rparr>\<rparr>
         \<and> 0 \<le> t \<and> t \<le> 37 / 2
         \<and> 0 \<le> s \<and> s \<le> 20 \<and> 0 \<le> m \<and> m \<le> 25 \<and> 0 \<le> r \<and> r \<le> 10
         \<and> 0 \<le> a \<and> a \<le> 10 \<and> 0 \<le> l \<and> l \<le> 10)"
proof -
  have h: "lastActive teacher \<le> 5" "0 \<le> averageRating teacher"
    "averageRating teacher \<le> 5"
    by (simp_all add: teacher_def)
  have e: "calculateCompatibilityScore 5 learner teacher =
       \<lparr>totalScore = Num (25 / 2),
        breakdown =
          \<lparr>skillMatch = Num 14, mutualBenefit = Num 13, ratingBonus = Num 10,
           activityBonus = Num 10, locationBonus = Num 10\<rparr>\<rparr>"
    by (simp only: calculateCompatibilityScore_Num [OF learner_teacher_skillMatch
          learner_teacher_mutualBenefit learner_teacher_location(1)])
      (simp add: teacher_def scenario_doubles scenario_totals)
  show ?thesis
    using calculateCompatibilityScore_bounds [OF learner_teacher_valid h] h
      learner_teacher_valid e
    by simp
qed

text \<open>
  Claim C9. The score is not symmetric: there are two profiles with the same rating, last
  activity and location, and an evaluation time, for which the total score of the first
  against the second differs from that of the second against the first. The learner
  scores the teacher 11, the teacher scores the learner 10.9.
\<close>

theorem calculateCompatibilityScore_not_symmetric:
  "\<exists>A B now. averageRating A = averageRating B \<and> lastActive A = lastActive B
     \<and> location A = location B
     \<and> totalScore (calculateCompatibilityScore now A B)
         \<noteq> totalScore (calculateCompatibilityScore now B A)"
proof -
  let ?B = "teacher\<lparr>averageRating := 0\<rparr>"
  have sB: "calculateSkillMatchScore learner ?B = Num 14"
    "calculateMutualBenefitScore learner ?B = Num 13"
    "calculateSkillMatchScore ?B learner = Num 10"
    "calculateMutualBenefitScore ?B learner = Num 18"
    by (simp_all add: scenario_defs)
  have lB: "calculateLocationScore (location learner) (location ?B) = Num 10"
    "calculateLocationScore (location ?B) (location learner) = Num 10"
    by (simp_all add: learner_def teacher_def new_york_location)
  have ab: "totalScore (calculateCompatibilityScore 0 learner ?B) = Num 11"
    by (simp only: calculateCompatibilityScore_Num [OF sB(1) sB(2) lB(1)])
      (simp add: teacher_def scenario_doubles scenario_totals)
  have ba: "totalScore (calculateCompatibilityScore 0 ?B learner) = Num (fl (109 / 10))"
    by (simp only: calculateCompatibilityScore_Num [OF sB(3) sB(4) lB(2)])
      (simp add: learner_def scenario_doubles scenario_totals)
  have ne: "fl (109 / 10) \<noteq> 11" by code_simp
  have "averageRating learner = averageRating ?B \<and> lastActive learner = lastActive ?B
     \<and> location learner = location ?B
     \<and> totalScore (calculateCompatibilityScore 0 learner ?B)
         \<noteq> totalScore (calculateCompatibilityScore 0 ?B learner)"
    using ne by (simp add: ab ba) (simp add: learner_def teacher_def)
  then show ?thesis by blast
qed

section \<open>The location score\<close>

lemma split_not_Nil: "split sep s \<noteq> []"
  by (induction s) auto

lemma hd_split: "hd (split sep s) = takeWhile (\<lambda>c. c \<noteq> sep) s"
  by (induction s) auto

lemma split_nth_0: "split sep s ! 0 = takeWhile (\<lambda>c. c \<noteq> sep) s"
  using split_not_Nil [of sep s] hd_split [of sep s] by (simp add: hd_conv_nth)

lemma tl_split: "tl (split sep s) = (if sep \<in> set s then split sep (tl (dropWhile (\<lambda>c. c \<noteq> sep) s)) else [])"
  by (induction s) auto

lemma length_split_gt_1: "Suc 0 < length (split sep s) \<longleftrightarrow> sep \<in> set s"
proof -
  have "length (split sep s) = Suc (length (tl (split sep s)))"
    using split_not_Nil [of sep s] by (cases "split sep s") auto
  then show ?thesis by (simp add: tl_split split_not_Nil)
qed

lemma split_nth_1:
  assumes "sep \<in> set s"
  shows "split sep s ! Suc 0 = takeWhile (\<lambda>c. c \<noteq> sep) (tl (dropWhile (\<lambda>c. c \<noteq> sep) s))"
proof -
  have "split sep s ! Suc 0 = tl (split sep s) ! 0"
    using split_not_Nil [of sep s] by (cases "split sep s") auto
  then show ?thesis using assms by (simp add: tl_split split_nth_0)
qed

lemma includes_str_sublist: "includes_str s t \<longleftrightarrow> sublist t s"
  by (induction s) (auto simp: sublist_Cons_right)

text \<open>
  Claim C5, as amended. The location score is 0 when either location is missing, null or
  empty; else 10 when the two strings are equal after lower-casing; else 8 when the first
  comma-delimited segment of one lower-cased string occurs as a substring anywhere in the
  other lower-cased string; else 5 when both strings contain a comma and their second
  segments, lower-cased and trimmed, are equal; else 0.
\<close>

theorem calculateLocationScore_cases:
  "calculateLocationScore a b =
     (case (a, b) of
        (Some x, Some y) \<Rightarrow>
          (let current = toLowerCase x; other = toLowerCase y in
           if x = [] \<or> y = [] then Num 0
           else if current = other then Num 10
           else if sublist (first_segment other) current \<or> sublist (first_segment current) other
             then Num 8
           else if CHR '','' \<in> set current \<and> CHR '','' \<in> set other
                   \<and> trim (second_segment current) = trim (second_segment other)
             then Num 5
           else Num 0)
      | _ \<Rightarrow> Num 0)"
proof (cases a)
  case None
  then show ?thesis by (simp add: calculateLocationScore_def falsy_string_def)
next
  case a: (Some x)
  show ?thesis
  proof (cases b)
    case None
    then show ?thesis using a by (simp add: calculateLocationScore_def falsy_string_def)
  next
    case b: (Some y)
    have parts: "(Suc 0 < length (split CHR '','' (toLowerCase x))
          \<and> Suc 0 < length (split CHR '','' (toLowerCase y))
          \<and> trim (split CHR '','' (toLowerCase x) ! Suc 0)
              = trim (split CHR '','' (toLowerCase y) ! Suc 0))
        \<longleftrightarrow> (CHR '','' \<in> set (toLowerCase x) \<and> CHR '','' \<in> set (toLowerCase y)
          \<and> trim (second_segment (toLowerCase x)) = trim (second_segment (toLowerCase y)))"
      by (auto simp add: length_split_gt_1 split_nth_1 second_segment_def first_segment_def)
    show ?thesis
      unfolding a b
      by (simp add: calculateLocationScore_def falsy_string_def Let_def split_nth_0
          includes_str_sublist parts flip: first_segment_def)
  qed
qed

text \<open>
  Claim C10. The location score is symmetric in its two arguments.
\<close>

theorem calculateLocationScore_symmetric:
  "calculateLocationScore a b = calculateLocationScore b a"
  by (auto simp add: calculateLocationScore_def Let_def)

lemma austin_texas:
  "calculateLocationScore (Some ''Austin, Texas'') (Some ''Texas'') = Num 8"
  by (simp add: calculateLocationScore_def falsy_string_def toLowerCase_def lower_char_def)

text \<open>
  Claim C5 as stated fails: for ``Austin, Texas'' against ``Texas'' the score is 8,
  although neither first segment (``austin'', ``texas'') occurs in the other first
  segment, and the second string has no second segment.
\<close>

theorem calculateLocationScore_whole_string:
  "calculateLocationScore (Some ''Austin, Texas'') (Some ''Texas'') = Num 8
   \<and> \<not> sublist (first_segment (toLowerCase ''Texas'')) (first_segment (toLowerCase ''Austin, Texas''))
   \<and> \<not> sublist (first_segment (toLowerCase ''Austin, Texas'')) (first_segment (toLowerCase ''Texas''))
   \<and> CHR '','' \<notin> set (toLowerCase ''Texas'')"
  by (simp add: calculateLocationScore_def falsy_string_def toLowerCase_def lower_char_def
      first_segment_def flip: includes_str_sublist)

text \<open>The five cases of the location score at concrete locations.\<close>

theorem calculateLocationScore_cases_witness:
  "calculateLocationScore (Some ''Austin, TX'') (Some ''Dallas,  tx '') = Num 5
   \<and> calculateLocationScore (Some ''New York, NY'') (Some ''new york, ny'') = Num 10
   \<and> calculateLocationScore (Some ''York'') (Some ''New York, NY'') = Num 8
   \<and> calculateLocationScore (Some ''Austin, TX'') (Some ''Boston, MA'') = Num 0
   \<and> calculateLocationScore (Some []) (Some []) = Num 0"
  by (simp add: calculateLocationScore_cases toLowerCase_def lower_char_def first_segment_def
      second_segment_def trim_def white_space_def flip: includes_str_sublist)

text \<open>The same pair of locations in the other order.\<close>

theorem calculateLocationScore_symmetric_witness:
  "calculateLocationScore (Some ''Texas'') (Some ''Austin, Texas'') = Num 8"
  using calculateLocationScore_symmetric [of "Some ''Texas''" "Some ''Austin, Texas''"]
  by (simp add: austin_texas)

section \<open>Skill match explanation: the three lists\<close>

lemma fold_push_names:
  assumes "\<And>x y. skill (h x y) = nm x"
  shows "map skill (fold (\<lambda>x acc. case g x of None \<Rightarrow> acc | Some y \<Rightarrow> acc @ [h x y]) xs acc) =
         map skill acc @ map nm (filter (\<lambda>x. g x \<noteq> None) xs)"
  by (induction xs arbitrary: acc) (auto simp: assms split: option.splits)

lemma skill_noEntry: "skill (noEntry n) = n"
  by (simp add: noEntry_def)

lemma youCanTeach_names:
  "map skill (youCanTeach (findSkillMatches currentUser otherUser)) =
   map offered_name (filter (\<lambda>s. wants otherUser (offered_name s) \<noteq> []) (skillsOffered currentUser))"
  by (simp add: findSkillMatches_def Let_def fold_push_names [where nm = offered_name]
      skill_noEntry find_wants)

lemma theyCanTeach_names:
  "map skill (theyCanTeach (findSkillMatches currentUser otherUser)) =
   map offered_name (filter (\<lambda>s. wants currentUser (offered_name s) \<noteq> []) (skillsOffered otherUser))"
  by (simp add: findSkillMatches_def Let_def fold_push_names [where nm = offered_name]
      skill_noEntry find_wants)

lemma find_offers_flipped:
  "find (\<lambda>s. toLowerCase n = toLowerCase (offered_name s)) (skillsOffered u) =
   (if offers u n = [] then None else Some (hd (offers u n)))"
  using find_offers [of n u] by (simp add: eq_commute)

lemma mutualMatches_names:
  "map skill (mutualMatches (findSkillMatches currentUser otherUser)) =
   map offered_name (filter (\<lambda>s. offers otherUser (offered_name s) \<noteq> []) (skillsOffered currentUser))"
  by (simp add: findSkillMatches_def Let_def fold_push_names [where nm = offered_name]
      skill_noEntry find_offers_flipped)

lemma wants_nonempty:
  "wants u n \<noteq> [] \<longleftrightarrow> (\<exists>w \<in> set (skillsWanted u). toLowerCase (wanted_name w) = toLowerCase n)"
  by (auto simp: wants_def filter_empty_conv)

lemma offers_nonempty:
  "offers u n \<noteq> [] \<longleftrightarrow> (\<exists>s \<in> set (skillsOffered u). toLowerCase (offered_name s) = toLowerCase n)"
  by (auto simp: offers_def filter_empty_conv)

lemma separate_listsD:
  "separate_lists u \<Longrightarrow> s \<in> set (skillsOffered u) \<Longrightarrow> w \<in> set (skillsWanted u) \<Longrightarrow>
   toLowerCase (offered_name s) \<noteq> toLowerCase (wanted_name w)"
  by (auto simp: separate_lists_def list_all_iff)

lemma separate_lists_apart:
  assumes "separate_lists u" "wants u n \<noteq> []"
  shows "offers u n = []"
proof (rule ccontr)
  assume "offers u n \<noteq> []"
  then obtain s where s: "s \<in> set (skillsOffered u)"
      "toLowerCase (offered_name s) = toLowerCase n"
    by (auto simp: offers_nonempty)
  from assms(2) obtain w where w: "w \<in> set (skillsWanted u)"
      "toLowerCase (wanted_name w) = toLowerCase n"
    by (auto simp: wants_nonempty)
  from separate_listsD [OF assms(1) s(1) w(1)] s(2) w(2) show False by simp
qed

lemma offers_own_name: "s \<in> set (skillsOffered u) \<Longrightarrow> offers u (offered_name s) \<noteq> []"
  by (auto simp: offers_nonempty)

text \<open>
  Claim C6, as amended. When neither user lists a skill name both as offered and as
  wanted (compared case-insensitively), the three lists of \<^verbatim>\<open>findSkillMatches\<close> are
  pairwise disjoint: no skill name appears in more than one of them.
\<close>

theorem findSkillMatches_disjoint:
  assumes "separate_lists currentUser" "separate_lists otherUser"
  shows "set (map skill (youCanTeach (findSkillMatches currentUser otherUser)))
           \<inter> set (map skill (theyCanTeach (findSkillMatches currentUser otherUser))) = {}
       \<and> set (map skill (youCanTeach (findSkillMatches currentUser otherUser)))
           \<inter> set (map skill (mutualMatches (findSkillMatches currentUser otherUser))) = {}
       \<and> set (map skill (theyCanTeach (findSkillMatches currentUser otherUser)))
           \<inter> set (map skill (mutualMatches (findSkillMatches currentUser otherUser))) = {}"
proof (intro conjI)
  show "set (map skill (youCanTeach (findSkillMatches currentUser otherUser)))
           \<inter> set (map skill (theyCanTeach (findSkillMatches currentUser otherUser))) = {}"
  proof (rule ccontr)
    assume "\<not> ?thesis"
    then obtain n where "offers currentUser n \<noteq> []" "wants currentUser n \<noteq> []"
      unfolding youCanTeach_names theyCanTeach_names using offers_own_name by fastforce
    with separate_lists_apart [OF assms(1)] show False by blast
  qed
next
  show "set (map skill (youCanTeach (findSkillMatches currentUser otherUser)))
           \<inter> set (map skill (mutualMatches (findSkillMatches currentUser otherUser))) = {}"
  proof (rule ccontr)
    assume "\<not> ?thesis"
    then obtain n where "wants otherUser n \<noteq> []" "offers otherUser n \<noteq> []"
      unfolding youCanTeach_names mutualMatches_names by fastforce
    with separate_lists_apart [OF assms(2)] show False by blast
  qed
next
  show "set (map skill (theyCanTeach (findSkillMatches currentUser otherUser)))
           \<inter> set (map skill (mutualMatches (findSkillMatches currentUser otherUser))) = {}"
  proof (rule ccontr)
    assume "\<not> ?thesis"
    then obtain n where "wants currentUser n \<noteq> []" "offers currentUser n \<noteq> []"
      unfolding theyCanTeach_names mutualMatches_names using offers_own_name by fastforce
    with separate_lists_apart [OF assms(1)] show False by blast
  qed
qed

lemmas explain_defs =
  findSkillMatches_def noEntry_def toLowerCase_def lower_char_def

text \<open>
  Claim C6 as stated fails: the improver both offers and wants Python, so for the tutor
  the name Python is in the list of skills to teach and in the list of mutual matches.
\<close>

theorem findSkillMatches_overlap:
  "map skill (youCanTeach (findSkillMatches tutor improver)) = [''Python'']
   \<and> map skill (theyCanTeach (findSkillMatches tutor improver)) = []
   \<and> map skill (mutualMatches (findSkillMatches tutor improver)) = [''Python'']
   \<and> set (map skill (youCanTeach (findSkillMatches tutor improver)))
        \<inter> set (map skill (mutualMatches (findSkillMatches tutor improver))) \<noteq> {}"
  by (simp add: explain_defs tutor_def improver_def)

text \<open>The learner teaches JavaScript, the teacher Python, and nothing is mutual.\<close>

theorem findSkillMatches_disjoint_witness:
  "separate_lists learner \<and> separate_lists teacher
   \<and> map skill (youCanTeach (findSkillMatches learner teacher)) = [''JavaScript'']
   \<and> map skill (theyCanTeach (findSkillMatches learner teacher)) = [''Python'']
   \<and> map skill (mutualMatches (findSkillMatches learner teacher)) = []
   \<and> set (map skill (youCanTeach (findSkillMatches learner teacher)))
        \<inter> set (map skill (theyCanTeach (findSkillMatches learner teacher))) = {}"
proof -
  have v: "separate_lists learner" "separate_lists teacher"
    by (simp_all add: separate_lists_def learner_def teacher_def toLowerCase_def lower_char_def)
  have e: "map skill (youCanTeach (findSkillMatches learner teacher)) = [''JavaScript'']"
    "map skill (theyCanTeach (findSkillMatches learner teacher)) = [''Python'']"
    "map skill (mutualMatches (findSkillMatches learner teacher)) = []"
    by (simp_all add: explain_defs learner_def teacher_def)
  show ?thesis using findSkillMatches_disjoint [OF v] v e by blast
qed

section \<open>Ranking: sorted and stable\<close>

lemma positive_byScore:
  "compatibilityScore x = Num a \<Longrightarrow> compatibilityScore y = Num b \<Longrightarrow>
   positive (byScore x y) \<longleftrightarrow> a < b"
  by (simp add: byScore_def)

lemma set_sort_insert: "set (sort_insert cmp x ys) = insert x (set ys)"
  by (induction ys) auto

lemma mset_sort_insert: "mset (sort_insert cmp x ys) = add_mset x (mset ys)"
  by (induction ys) auto

lemma mset_Array_sort: "mset (Array_sort cmp xs) = mset xs"
  by (induction xs) (simp_all add: Array_sort_def mset_sort_insert)

lemma set_Array_sort: "set (Array_sort cmp xs) = set xs"
  using mset_Array_sort [of cmp xs] by (metis set_mset_mset)

lemma sorted_sort_insert:
  assumes "compatibilityScore x \<noteq> NaN" "list_all (\<lambda>u. compatibilityScore u \<noteq> NaN) ys"
    and "sorted_wrt (\<lambda>a b. at_least (compatibilityScore a) (compatibilityScore b)) ys"
  shows "sorted_wrt (\<lambda>a b. at_least (compatibilityScore a) (compatibilityScore b))
           (sort_insert byScore x ys)"
  using assms(2,3)
proof (induction ys)
  case Nil
  then show ?case by simp
next
  case (Cons y ys)
  obtain a where a: "compatibilityScore x = Num a"
    using assms(1) by (cases "compatibilityScore x") auto
  obtain b where b: "compatibilityScore y = Num b"
    using Cons.prems(1) by (cases "compatibilityScore y") auto
  show ?case
  proof (cases "a < b")
    case True
    have "at_least (compatibilityScore y) (compatibilityScore z)"
      if "z \<in> set (sort_insert byScore x ys)" for z
      using that Cons.prems(2) True a b by (auto simp: set_sort_insert)
    then show ?thesis using Cons True a b by (simp add: positive_byScore)
  next
    case False
    have "at_least (compatibilityScore x) (compatibilityScore z)" if "z \<in> set (y # ys)" for z
    proof -
      have "at_least (compatibilityScore y) (compatibilityScore z) \<or> z = y"
        using that Cons.prems(2) by auto
      then show ?thesis using False a b
        by (cases "compatibilityScore z") auto
    qed
    then show ?thesis using Cons.prems(2) False a b by (simp add: positive_byScore)
  qed
qed

lemma filter_sort_insert:
  assumes "compatibilityScore x \<noteq> NaN" "list_all (\<lambda>u. compatibilityScore u \<noteq> NaN) ys"
  shows "filter (\<lambda>u. compatibilityScore u = k) (sort_insert byScore x ys) =
         filter (\<lambda>u. compatibilityScore u = k) (x # ys)"
  using assms(2)
proof (induction ys)
  case Nil
  then show ?case by simp
next
  case (Cons y ys)
  obtain a where a: "compatibilityScore x = Num a"
    using assms(1) by (cases "compatibilityScore x") auto
  obtain b where b: "compatibilityScore y = Num b"
    using Cons.prems by (cases "compatibilityScore y") auto
  show ?case using Cons a b by (auto simp: positive_byScore)
qed

text \<open>
  Claim C7. For every list of scored candidates whose scores are numbers, the ranking
  step gives the list in non-increasing order of \<^verbatim>\<open>compatibilityScore\<close>; the candidates
  of any one score keep their input order; and the result is a rearrangement of the input.
  The step is a function of the list, so running it again on the same input gives the
  same ordering.
\<close>

theorem ranking_sorted_stable:
  assumes "list_all (\<lambda>u. compatibilityScore u \<noteq> NaN) scoredUsers"
  shows "sorted_wrt (\<lambda>a b. at_least (compatibilityScore a) (compatibilityScore b))
           (Array_sort byScore scoredUsers)
       \<and> (\<forall>k. filter (\<lambda>u. compatibilityScore u = k) (Array_sort byScore scoredUsers) =
                filter (\<lambda>u. compatibilityScore u = k) scoredUsers)
       \<and> mset (Array_sort byScore scoredUsers) = mset scoredUsers"
  using assms
proof (induction scoredUsers)
  case Nil
  then show ?case by (simp add: Array_sort_def)
next
  case (Cons x xs)
  have x: "compatibilityScore x \<noteq> NaN" and xs: "list_all (\<lambda>u. compatibilityScore u \<noteq> NaN) xs"
    using Cons.prems by simp_all
  have ih: "sorted_wrt (\<lambda>a b. at_least (compatibilityScore a) (compatibilityScore b))
              (Array_sort byScore xs)"
    "\<And>k. filter (\<lambda>u. compatibilityScore u = k) (Array_sort byScore xs) =
          filter (\<lambda>u. compatibilityScore u = k) xs"
    using Cons.IH [OF xs] by simp_all
  have all: "list_all (\<lambda>u. compatibilityScore u \<noteq> NaN) (Array_sort byScore xs)"
    using xs by (simp add: list_all_iff set_Array_sort)
  have step: "Array_sort byScore (x # xs) = sort_insert byScore x (Array_sort byScore xs)"
    by (simp add: Array_sort_def)
  have "sorted_wrt (\<lambda>a b. at_least (compatibilityScore a) (compatibilityScore b))
          (Array_sort byScore (x # xs))"
    unfolding step using x all ih(1) by (rule sorted_sort_insert)
  moreover have "filter (\<lambda>u. compatibilityScore u = k) (Array_sort byScore (x # xs)) =
                 filter (\<lambda>u. compatibilityScore u = k) (x # xs)" for k
    unfolding step by (simp add: filter_sort_insert [OF x all] ih(2))
  ultimately show ?case by (simp add: mset_Array_sort)
qed

lemma compatibilityScore_scoreUser:
  "compatibilityScore (scoreUser now currentUser u) =
   totalScore (calculateCompatibilityScore now currentUser u)"
  by (simp add: scoreUser_def Let_def user.defs scoredUser.defs)

lemma learner_learner_total:
  "totalScore (calculateCompatibilityScore 5 learner (learner\<lparr>lastActive := t\<rparr>)) =
     Num (round2_64 (weighted64 0 0 0 (activity64 5 t) 10))"
proof -
  have s: "calculateSkillMatchScore learner (learner\<lparr>lastActive := t\<rparr>) = Num 0"
    "calculateMutualBenefitScore learner (learner\<lparr>lastActive := t\<rparr>) = Num 0"
    by (simp_all add: scenario_defs)
  have l: "calculateLocationScore (location learner) (location (learner\<lparr>lastActive := t\<rparr>)) = Num 10"
    by (simp add: learner_def new_york_location)
  show ?thesis
    by (simp only: calculateCompatibilityScore_Num [OF s l])
      (simp add: learner_def scenario_doubles)
qed

lemma learner_teacher_total:
  "totalScore (calculateCompatibilityScore 5 learner teacher) = Num (25 / 2)"
  by (simp only: calculateCompatibilityScore_Num [OF learner_teacher_skillMatch
        learner_teacher_mutualBenefit learner_teacher_location(1)])
    (simp add: teacher_def scenario_doubles scenario_totals)

text \<open>
  Three candidates for the learner: two copies of a profile that score 1.5 each, with the
  teacher, who scores 12.5, between them. The teacher comes first and the two others keep
  their order.
\<close>

theorem ranking_sorted_stable_witness:
  "rankMatches 5 learner [learner, teacher, learner\<lparr>lastActive := 1\<rparr>] =
     [scoreUser 5 learner teacher, scoreUser 5 learner learner,
      scoreUser 5 learner (learner\<lparr>lastActive := 1\<rparr>)]
   \<and> compatibilityScore (scoreUser 5 learner learner) = Num (3 / 2)
   \<and> compatibilityScore (scoreUser 5 learner (learner\<lparr>lastActive := 1\<rparr>)) = Num (3 / 2)
   \<and> sorted_wrt (\<lambda>a b. at_least (compatibilityScore a) (compatibilityScore b))
        (rankMatches 5 learner [learner, teacher, learner\<lparr>lastActive := 1\<rparr>])"
proof -
  have a: "compatibilityScore (scoreUser 5 learner learner) = Num (3 / 2)"
    using learner_learner_total [of 0]
    by (simp add: compatibilityScore_scoreUser learner_def scenario_doubles scenario_totals)
  have b: "compatibilityScore (scoreUser 5 learner teacher) = Num (25 / 2)"
    by (simp add: compatibilityScore_scoreUser learner_teacher_total)
  have c: "compatibilityScore (scoreUser 5 learner (learner\<lparr>lastActive := 1\<rparr>)) = Num (3 / 2)"
    using learner_learner_total [of 1]
    by (simp add: compatibilityScore_scoreUser scenario_doubles scenario_totals)
  have r: "rankMatches 5 learner [learner, teacher, learner\<lparr>lastActive := 1\<rparr>] =
     [scoreUser 5 learner teacher, scoreUser 5 learner learner,
      scoreUser 5 learner (learner\<lparr>lastActive := 1\<rparr>)]"
    by (simp add: rankMatches_def Array_sort_def byScore_def a b c)
  have "list_all (\<lambda>u. compatibilityScore u \<noteq> NaN)
          (map (scoreUser 5 learner) [learner, teacher, learner\<lparr>lastActive := 1\<rparr>])"
    by (simp add: a b c)
  from ranking_sorted_stable [OF this] r a c show ?thesis
    by (simp add: rankMatches_def)
qed

end
